theory Spec2Isabelle
  imports Complex_Main
begin

section \<open>Numbers\<close>

text \<open>
  JavaScript numbers are IEEE 754 binary64 values.  A finite double is modelled by the real
  number it denotes.  \<open>fl\<close> rounds a real to the nearest double, ties to the even
  significand: \<open>ulp x\<close> is the spacing of the doubles in the binade of \<open>x\<close> (the
  subnormal spacing \<open>2^-1074\<close> below \<open>2^-1022\<close>), and \<open>fl x\<close> is the nearest multiple of
  it.  The result of \<open>+\<close>, \<open>-\<close>, \<open>*\<close>, \<open>/\<close> and \<open>Math.sqrt\<close> on doubles is \<open>fl\<close> of the
  exact result, and a decimal literal such as \<open>0.7\<close> denotes \<open>fl\<close> of its value;
  \<open>Math.floor\<close> and the comparisons are exact.  Results beyond the largest double, which
  IEEE 754 replaces by Infinity, are outside the model.

  The quantities whose comparisons and floors select a target or an amount of damage are
  computed with these rounded operations: the helper \<open>distance\<close>, the length of the path,
  the remaining route distance of an enemy and the splash amounts.  The motion of enemies
  and projectiles and the rotation of towers are computed on the reals.  Where the source
  divides by a counter that may be zero (the wave statistics), the IEEE results Infinity
  and NaN are modelled explicitly by the type \<open>jsnum\<close> further down.
  \<open>Math.atan2\<close> is the usual two-argument arc tangent.
\<close>

definition roundEven :: "real \<Rightarrow> int" where
  "roundEven x =
     (let f = \<lfloor>x\<rfloor>; d = x - of_int f in
      if d < 1 / 2 then f else if 1 / 2 < d then f + 1 else if even f then f else f + 1)"

definition ulp :: "real \<Rightarrow> real" where
  "ulp x = 2 powr (of_int (max (- 1022) \<lfloor>log 2 \<bar>x\<bar>\<rfloor>) - 52)"

definition fl :: "real \<Rightarrow> real" where
  "fl x = (if x = 0 then 0 else of_int (roundEven (x / ulp x)) * ulp x)"

definition fadd :: "real \<Rightarrow> real \<Rightarrow> real" where
  "fadd a b = fl (a + b)"

definition fsub :: "real \<Rightarrow> real \<Rightarrow> real" where
  "fsub a b = fl (a - b)"

definition fmul :: "real \<Rightarrow> real \<Rightarrow> real" where
  "fmul a b = fl (a * b)"

definition fdiv :: "real \<Rightarrow> real \<Rightarrow> real" where
  "fdiv a b = fl (a / b)"

definition fsqrt :: "real \<Rightarrow> real" where
  "fsqrt a = fl (sqrt a)"

definition atan2 :: "real \<Rightarrow> real \<Rightarrow> real" where
  "atan2 y x =
     (if 0 < x then arctan (y / x)
      else if x < 0 \<and> 0 \<le> y then arctan (y / x) + pi
      else if x < 0 \<and> y < 0 then arctan (y / x) - pi
      else if 0 < y then pi / 2
      else if y < 0 then - (pi / 2)
      else 0)"

section \<open>Helper functions\<close>

definition distance :: "real \<Rightarrow> real \<Rightarrow> real \<Rightarrow> real \<Rightarrow> real" where
  "distance x1 y1 x2 y2 =
     (let dx = fsub x2 x1; dy = fsub y2 y1 in fsqrt (fadd (fmul dx dx) (fmul dy dy)))"

definition angleBetween :: "real \<Rightarrow> real \<Rightarrow> real \<Rightarrow> real \<Rightarrow> real" where
  "angleBetween x1 y1 x2 y2 = atan2 (y2 - y1) (x2 - x1)"

definition lerp :: "real \<Rightarrow> real \<Rightarrow> real \<Rightarrow> real" where
  "lerp start end' t = start + (end' - start) * t"

definition clamp :: "real \<Rightarrow> real \<Rightarrow> real \<Rightarrow> real" where
  "clamp v mn mx = min (max v mn) mx"

definition isWithinBounds :: "real \<Rightarrow> real \<Rightarrow> bool" where
  "isWithinBounds x y = (0 \<le> x \<and> x < 800 \<and> 0 \<le> y \<and> y < 600)"

section \<open>Path data\<close>

definition PATH_COORDINATES :: "(real \<times> real) list" where
  "PATH_COORDINATES =
     [(-20, 300), (100, 300), (200, 300), (200, 200), (200, 150), (400, 150),
      (500, 150), (500, 250), (500, 350), (650, 350), (700, 350), (700, 250),
      (700, 200), (820, 200)]"

text \<open>The loop of \<open>calculatePathLength\<close>: the running total over consecutive points.\<close>

fun pathLengthLoop :: "(real \<times> real) list \<Rightarrow> real \<Rightarrow> real" where
  "pathLengthLoop (prv # cur # rest) totalLength =
     pathLengthLoop (cur # rest)
       (fadd totalLength (distance (fst prv) (snd prv) (fst cur) (snd cur)))"
| "pathLengthLoop _ totalLength = totalLength"

definition calculatePathLength :: real where
  "calculatePathLength = pathLengthLoop PATH_COORDINATES 0"

record path_pos =
  pp_x :: real
  pp_y :: real
  pp_angle :: real

text \<open>
  The segment search of \<open>getPositionOnPath\<close>; \<open>None\<close> is the loop running to its end,
  after which the source falls back to the end of the path.
\<close>

fun findSegment :: "(real \<times> real) list \<Rightarrow> real \<Rightarrow> real \<Rightarrow> path_pos option" where
  "findSegment (prv # cur # rest) currentDistance targetDistance =
     (let segmentLength = distance (fst prv) (snd prv) (fst cur) (snd cur) in
      if currentDistance + segmentLength \<ge> targetDistance then
        (let segmentProgress = (targetDistance - currentDistance) / segmentLength in
         Some \<lparr> pp_x = lerp (fst prv) (fst cur) segmentProgress,
                pp_y = lerp (snd prv) (snd cur) segmentProgress,
                pp_angle = angleBetween (fst prv) (snd prv) (fst cur) (snd cur) \<rparr>)
      else findSegment (cur # rest) (currentDistance + segmentLength) targetDistance)"
| "findSegment _ currentDistance targetDistance = None"

text \<open>The end of the path: the result for progress 1, and the fallback after the loop.\<close>

definition pathEnd :: path_pos where
  "pathEnd =
     (let end' = last PATH_COORDINATES; prv = last (butlast PATH_COORDINATES) in
      \<lparr> pp_x = fst end', pp_y = snd end',
        pp_angle = angleBetween (fst prv) (snd prv) (fst end') (snd end') \<rparr>)"

definition getPositionOnPath :: "real \<Rightarrow> path_pos" where
  "getPositionOnPath progress0 =
     (let progress = clamp progress0 0 1 in
      if progress = 0 then
        (let start = PATH_COORDINATES ! 0; next = PATH_COORDINATES ! 1 in
         \<lparr> pp_x = fst start, pp_y = snd start,
           pp_angle = angleBetween (fst start) (snd start) (fst next) (snd next) \<rparr>)
      else if progress = 1 then pathEnd
      else
        (let totalLength = calculatePathLength;
             targetDistance = progress * totalLength in
         case findSegment PATH_COORDINATES 0 targetDistance of
           Some p \<Rightarrow> p
         | None \<Rightarrow> pathEnd))"

section \<open>Enemy\<close>

text \<open>
  The enemy kinds are the keys of \<open>ENEMY_TYPES\<close>.  The constructor throws on any other
  key; the datatype admits the three keys only.  The random debugging id and the colour
  of an enemy are not modelled.
\<close>

datatype enemy_type = BASIC | TANK | FAST

record enemy_config =
  cfg_health :: real
  cfg_maxHealth :: real
  cfg_speed :: real
  cfg_reward :: real
  cfg_size :: real
  cfg_pathSpeed :: real

fun ENEMY_TYPES :: "enemy_type \<Rightarrow> enemy_config" where
  "ENEMY_TYPES BASIC = \<lparr> cfg_health = 100, cfg_maxHealth = 100, cfg_speed = 60,
      cfg_reward = 10, cfg_size = 20, cfg_pathSpeed = 1 \<rparr>"
| "ENEMY_TYPES TANK = \<lparr> cfg_health = 300, cfg_maxHealth = 300, cfg_speed = 30,
      cfg_reward = 25, cfg_size = 25, cfg_pathSpeed = 8 / 10 \<rparr>"
| "ENEMY_TYPES FAST = \<lparr> cfg_health = 60, cfg_maxHealth = 60, cfg_speed = 120,
      cfg_reward = 15, cfg_size = 18, cfg_pathSpeed = 15 / 10 \<rparr>"

record enemy =
  etype :: enemy_type
  health :: real
  maxHealth :: real
  speed :: real
  pathSpeed :: real
  reward :: real
  esize :: real
  position :: "real \<times> real"
  pathProgress :: real
  direction :: "real \<times> real"
  angle :: real
  alive :: bool
  reachedEnd :: bool
  markedForRemoval :: bool
  damageFlash :: real
  healthBarVisible :: bool

definition updatePositionFromPath :: "enemy \<Rightarrow> enemy" where
  "updatePositionFromPath e =
     (let pathData = getPositionOnPath (pathProgress e) in
      e \<lparr> position := (pp_x pathData, pp_y pathData),
          angle := pp_angle pathData,
          direction := (cos (pp_angle pathData), sin (pp_angle pathData)) \<rparr>)"

definition Enemy :: "enemy_type \<Rightarrow> enemy" where
  "Enemy ty =
     (let config = ENEMY_TYPES ty in
      updatePositionFromPath
        \<lparr> etype = ty, health = cfg_health config, maxHealth = cfg_maxHealth config,
          speed = cfg_speed config, pathSpeed = cfg_pathSpeed config,
          reward = cfg_reward config, esize = cfg_size config,
          position = (0, 0), pathProgress = 0, direction = (1, 0), angle = 0,
          alive = True, reachedEnd = False, markedForRemoval = False,
          damageFlash = 0, healthBarVisible = True \<rparr>)"

definition move :: "enemy \<Rightarrow> real \<Rightarrow> enemy" where
  "move e deltaTime =
     (if \<not> alive e \<or> reachedEnd e then e
      else
        (let moveDistance = (speed e * pathSpeed e * deltaTime) / 1000;
             totalPathLength = calculatePathLength;
             progressIncrement = moveDistance / totalPathLength;
             e1 = e \<lparr> pathProgress := pathProgress e + progressIncrement \<rparr>;
             e2 = e1 \<lparr> pathProgress := clamp (pathProgress e1) 0 1 \<rparr>
         in updatePositionFromPath e2))"

definition checkEndReached :: "enemy \<Rightarrow> enemy" where
  "checkEndReached e =
     (if pathProgress e \<ge> 1 then e \<lparr> reachedEnd := True, alive := False \<rparr> else e)"

definition updateVisualEffects :: "enemy \<Rightarrow> real \<Rightarrow> enemy" where
  "updateVisualEffects e deltaTime =
     (if damageFlash e > 0 then
        (let e1 = e \<lparr> damageFlash := damageFlash e - deltaTime \<rparr> in
         if damageFlash e1 < 0 then e1 \<lparr> damageFlash := 0 \<rparr> else e1)
      else e)"

definition update :: "enemy \<Rightarrow> real \<Rightarrow> enemy" where
  "update e deltaTime =
     (if \<not> alive e \<or> reachedEnd e then e
      else checkEndReached (move (updateVisualEffects e deltaTime) deltaTime))"

text \<open>\<open>takeDamage\<close> returns the mutated enemy and the boolean the method returns.\<close>

definition takeDamage :: "enemy \<Rightarrow> real \<Rightarrow> enemy \<times> bool" where
  "takeDamage e damage =
     (if \<not> alive e then (e, False)
      else
        (let e1 = e \<lparr> health := health e - damage, damageFlash := 200 \<rparr> in
         if health e1 \<le> 0 then (e1 \<lparr> health := 0, alive := False \<rparr>, True)
         else (e1, False)))"

definition isAlive :: "enemy \<Rightarrow> bool" where
  "isAlive e = alive e"

definition getDistanceToEnd :: "enemy \<Rightarrow> real" where
  "getDistanceToEnd e =
     (let totalLength = calculatePathLength in fmul totalLength (fsub 1 (pathProgress e)))"

text \<open>A run of calls: the states of the enemy before, between and after the calls.\<close>

fun updateTrace :: "enemy \<Rightarrow> real list \<Rightarrow> enemy list" where
  "updateTrace e [] = [e]"
| "updateTrace e (dt # dts) = e # updateTrace (update e dt) dts"

fun damageTrace :: "enemy \<Rightarrow> real list \<Rightarrow> (enemy \<times> bool) list" where
  "damageTrace e [] = []"
| "damageTrace e (d # ds) = takeDamage e d # damageTrace (fst (takeDamage e d)) ds"

fun damageAll :: "enemy \<Rightarrow> real list \<Rightarrow> enemy" where
  "damageAll e [] = e"
| "damageAll e (d # ds) = damageAll (fst (takeDamage e d)) ds"

section \<open>The shared enemy objects\<close>

text \<open>
  Towers, projectiles and the game's array hold references to the same enemy objects, and
  a projectile mutates them.  The objects live in a store from references to enemies; an
  array of enemies is a list of references, so that \<open>enemy === centerEnemy\<close> is equality
  of references.
\<close>

type_synonym addr = nat

type_synonym store = "addr \<Rightarrow> enemy"

datatype error = TypeError

section \<open>Projectile\<close>

record projectile =
  position_p :: "real \<times> real"
  startPosition :: "real \<times> real"
  target_p :: "addr option"
  targetPosition :: "real \<times> real"
  speed_p :: real
  velocity :: "real \<times> real"
  damage_p :: real
  splash_p :: bool
  splashRadius_p :: real
  active_p :: bool
  hasHit :: bool
  markedForRemoval_p :: bool
  size_p :: real
  trailLength :: nat
  trail :: "(real \<times> real) list"
  rotationAngle_p :: real
  glowIntensity :: real
  timeAlive :: real
  maxLifetime :: real
  distanceTraveled :: real
  maxDistance :: real
  useTargetPrediction :: bool
  predictionTime :: real

text \<open>The test \<open>this.target && this.target.isAlive()\<close>, which several methods repeat.\<close>

definition targetAlive :: "projectile \<Rightarrow> store \<Rightarrow> bool" where
  "targetAlive p st = (case target_p p of None \<Rightarrow> False | Some a \<Rightarrow> isAlive (st a))"

definition calculateTargetVelocity :: "projectile \<Rightarrow> store \<Rightarrow> real \<times> real" where
  "calculateTargetVelocity p st =
     (case target_p p of
        None \<Rightarrow> (0, 0)
      | Some a \<Rightarrow>
          (let targetSpeed = speed (st a) * pathSpeed (st a) in
           (fst (direction (st a)) * targetSpeed, snd (direction (st a)) * targetSpeed)))"

text \<open>
  In \<open>predictTargetPosition\<close> a projectile speed of zero makes \<open>timeToReach\<close> infinite,
  and the minimum is then the prediction time.  (A zero speed at distance zero gives NaN in
  the source; every entry of \<open>TOWER_TYPES\<close> has a positive projectile speed.)
\<close>

definition predictTargetPosition :: "projectile \<Rightarrow> store \<Rightarrow> real \<times> real" where
  "predictTargetPosition p st =
     (case target_p p of
        None \<Rightarrow> targetPosition p
      | Some a \<Rightarrow>
          if \<not> isAlive (st a) then targetPosition p
          else
            (let currentPos = position (st a);
                 targetVelocity = calculateTargetVelocity p st;
                 distanceToTarget = distance (fst (position_p p)) (snd (position_p p))
                                      (fst currentPos) (snd currentPos);
                 predictionTime' =
                   (if speed_p p = 0 then predictionTime p
                    else min (distanceToTarget / speed_p p) (predictionTime p))
             in (fst currentPos + fst targetVelocity * predictionTime',
                 snd currentPos + snd targetVelocity * predictionTime')))"

definition calculateInitialVelocity :: "projectile \<Rightarrow> store \<Rightarrow> projectile" where
  "calculateInitialVelocity p st =
     (let targetPos =
            (if useTargetPrediction p \<and> targetAlive p st then predictTargetPosition p st
             else targetPosition p);
          dx = fst targetPos - fst (position_p p);
          dy = snd targetPos - snd (position_p p);
          dist = sqrt (dx * dx + dy * dy)
      in if dist > 0 then
           p \<lparr> velocity := ((dx / dist) * speed_p p, (dy / dist) * speed_p p),
               rotationAngle_p := atan2 dy dx \<rparr>
         else p \<lparr> velocity := (0, 0), active_p := False \<rparr>)"

definition Projectile ::
  "real \<Rightarrow> real \<Rightarrow> addr option \<Rightarrow> real \<Rightarrow> real \<Rightarrow> bool \<Rightarrow> real \<Rightarrow> store \<Rightarrow> projectile" where
  "Projectile x y target damage spd splash splashRadius st =
     calculateInitialVelocity
       \<lparr> position_p = (x, y), startPosition = (x, y), target_p = target,
         targetPosition = (case target of Some a \<Rightarrow> position (st a) | None \<Rightarrow> (x, y)),
         speed_p = spd, velocity = (0, 0), damage_p = damage, splash_p = splash,
         splashRadius_p = splashRadius, active_p = True, hasHit = False,
         markedForRemoval_p = False, size_p = 6, trailLength = 5, trail = [],
         rotationAngle_p = 0, glowIntensity = 1, timeAlive = 0, maxLifetime = 5000,
         distanceTraveled = 0, maxDistance = 1000, useTargetPrediction = True,
         predictionTime = 5 / 10 \<rparr> st"

definition destroy :: "projectile \<Rightarrow> projectile" where
  "destroy p = p \<lparr> active_p := False, markedForRemoval_p := True \<rparr>"

definition adjustTrajectory :: "projectile \<Rightarrow> store \<Rightarrow> projectile" where
  "adjustTrajectory p st =
     (if \<not> targetAlive p st then p
      else
        (let predictedPos = predictTargetPosition p st;
             dx = fst predictedPos - fst (position_p p);
             dy = snd predictedPos - snd (position_p p);
             dist = sqrt (dx * dx + dy * dy)
         in if dist > 0 then
              (let correctionFactor = 1 / 10;
                   newVelX = (dx / dist) * speed_p p;
                   newVelY = (dy / dist) * speed_p p;
                   vx = lerp (fst (velocity p)) newVelX correctionFactor;
                   vy = lerp (snd (velocity p)) newVelY correctionFactor
               in p \<lparr> velocity := (vx, vy), rotationAngle_p := atan2 vy vx \<rparr>)
            else p))"

definition updatePosition :: "projectile \<Rightarrow> store \<Rightarrow> real \<Rightarrow> projectile" where
  "updatePosition p st deltaTime =
     (let deltaSeconds = deltaTime / 1000;
          oldX = fst (position_p p);
          oldY = snd (position_p p);
          p1 = p \<lparr> position_p := (oldX + fst (velocity p) * deltaSeconds,
                                  oldY + snd (velocity p) * deltaSeconds) \<rparr>;
          moveDistance = distance oldX oldY (fst (position_p p1)) (snd (position_p p1));
          p2 = p1 \<lparr> distanceTraveled := distanceTraveled p1 + moveDistance \<rparr>
      in if distanceTraveled p2 > maxDistance p2 then destroy p2
         else if targetAlive p2 st \<and> useTargetPrediction p2 then adjustTrajectory p2 st
         else p2)"

definition updateTrail :: "projectile \<Rightarrow> projectile" where
  "updateTrail p =
     (let p1 = p \<lparr> trail := trail p @ [position_p p] \<rparr> in
      if length (trail p1) > trailLength p1 then p1 \<lparr> trail := tl (trail p1) \<rparr> else p1)"

definition checkCollisionWithEnemy :: "projectile \<Rightarrow> enemy \<Rightarrow> bool" where
  "checkCollisionWithEnemy p e =
     (let dist = distance (fst (position_p p)) (snd (position_p p))
                   (fst (position e)) (snd (position e))
      in dist \<le> esize e / 2 + size_p p / 2)"

text \<open>The loop of \<open>applySplashDamage\<close> over the enemy array, in order.\<close>

fun splashLoop :: "projectile \<Rightarrow> real \<Rightarrow> addr \<Rightarrow> addr list \<Rightarrow> store \<Rightarrow> store" where
  "splashLoop p splashDamage centerEnemy [] st = st"
| "splashLoop p splashDamage centerEnemy (a # rest) st =
     (if \<not> isAlive (st a) \<or> a = centerEnemy then splashLoop p splashDamage centerEnemy rest st
      else
        (let dist = distance (fst (position_p p)) (snd (position_p p))
                      (fst (position (st a))) (snd (position (st a)))
         in if dist \<le> splashRadius_p p then
              (let damageMultiplier = fsub 1 (fdiv dist (splashRadius_p p));
                   finalDamage = real_of_int \<lfloor>fmul splashDamage damageMultiplier\<rfloor>
               in if finalDamage > 0 then
                    splashLoop p splashDamage centerEnemy rest
                      (st (a := fst (takeDamage (st a) finalDamage)))
                  else splashLoop p splashDamage centerEnemy rest st)
            else splashLoop p splashDamage centerEnemy rest st))"

definition applySplashDamage :: "projectile \<Rightarrow> addr \<Rightarrow> addr list \<Rightarrow> store \<Rightarrow> store" where
  "applySplashDamage p centerEnemy allEnemies st =
     (let splashDamage = real_of_int \<lfloor>fmul (damage_p p) (fl (7 / 10))\<rfloor> in
      splashLoop p splashDamage centerEnemy allEnemies st)"

text \<open>
  \<open>hit\<close> returns the projectile and the store after the impact.  The particle effect of
  \<open>createExplosionEffect\<close> touches neither and is not modelled.
\<close>

definition hit :: "projectile \<Rightarrow> addr \<Rightarrow> addr list \<Rightarrow> store \<Rightarrow> projectile \<times> store" where
  "hit p hitEnemy allEnemies st =
     (if hasHit p then (p, st)
      else
        (let p1 = p \<lparr> hasHit := True \<rparr>;
             st1 = st (hitEnemy := fst (takeDamage (st hitEnemy) (damage_p p1)));
             st2 = (if splash_p p1 \<and> splashRadius_p p1 > 0
                    then applySplashDamage p1 hitEnemy allEnemies st1 else st1)
         in (destroy p1, st2)))"

text \<open>The fallback scan of \<open>checkCollisions\<close>: the first alive enemy that collides.\<close>

fun firstCollision :: "projectile \<Rightarrow> store \<Rightarrow> addr list \<Rightarrow> addr option" where
  "firstCollision p st [] = None"
| "firstCollision p st (a # rest) =
     (if isAlive (st a) \<and> checkCollisionWithEnemy p (st a) then Some a
      else firstCollision p st rest)"

definition checkCollisions :: "projectile \<Rightarrow> addr list \<Rightarrow> store \<Rightarrow> projectile \<times> store" where
  "checkCollisions p enemies st =
     (if \<not> active_p p \<or> hasHit p then (p, st)
      else
        (case (if targetAlive p st then target_p p else None) of
           Some a \<Rightarrow>
             if checkCollisionWithEnemy p (st a) then hit p a enemies st else (p, st)
         | None \<Rightarrow>
             (case firstCollision p st enemies of
                Some a \<Rightarrow> hit p a enemies st
              | None \<Rightarrow> (p, st))))"

definition checkBounds :: "projectile \<Rightarrow> projectile" where
  "checkBounds p =
     (if \<not> isWithinBounds (fst (position_p p)) (snd (position_p p)) then destroy p else p)"

definition updateVisualEffects_p :: "projectile \<Rightarrow> real \<Rightarrow> projectile" where
  "updateVisualEffects_p p deltaTime =
     (let pulseSpeed = 5 / 1000 in
      p \<lparr> glowIntensity := 7 / 10 + (3 / 10) * sin (timeAlive p * pulseSpeed) \<rparr>)"

definition update_p :: "projectile \<Rightarrow> real \<Rightarrow> addr list \<Rightarrow> store \<Rightarrow> projectile \<times> store" where
  "update_p p deltaTime enemies st =
     (if \<not> active_p p then (p, st)
      else
        (let p1 = p \<lparr> timeAlive := timeAlive p + deltaTime \<rparr> in
         if timeAlive p1 > maxLifetime p1 then (destroy p1, st)
         else
           (let p2 = updatePosition p1 st deltaTime;
                p3 = updateTrail p2;
                (p4, st') = checkCollisions p3 enemies st;
                p5 = checkBounds p4;
                p6 = updateVisualEffects_p p5 deltaTime
            in (p6, st'))))"

text \<open>A run of ticks of one projectile, each with its elapsed time and enemy array.\<close>

fun updates_p :: "projectile \<Rightarrow> (real \<times> addr list) list \<Rightarrow> store \<Rightarrow> projectile \<times> store" where
  "updates_p p [] st = (p, st)"
| "updates_p p ((dt, enemies) # ticks) st =
     (let (p', st') = update_p p dt enemies st in updates_p p' ticks st')"

text \<open>
  The splash formula in the words of the specification, to compare the loop against:
  \<open>floor(floor(damage * 0.7) * (1 - distance / splashRadius))\<close>, where the distance is
  measured from the impact point, the projectile's position, and every operation is the
  operation on doubles.
\<close>

definition impactDistance :: "projectile \<Rightarrow> enemy \<Rightarrow> real" where
  "impactDistance p e =
     distance (fst (position_p p)) (snd (position_p p)) (fst (position e)) (snd (position e))"

definition specSplashDamage :: "projectile \<Rightarrow> enemy \<Rightarrow> real" where
  "specSplashDamage p e =
     real_of_int \<lfloor>fmul (real_of_int \<lfloor>fmul (damage_p p) (fl (7 / 10))\<rfloor>)
                          (fsub 1 (fdiv (impactDistance p e) (splashRadius_p p)))\<rfloor>"

section \<open>Tower\<close>

datatype tower_type = BASIC_tower | SNIPER | AREA

record tower_config =
  cfg_damage :: real
  cfg_range :: real
  cfg_fireRate :: real
  cfg_cost :: real
  cfg_size_t :: real
  cfg_projectileSpeed :: real
  cfg_projectileSize :: real
  cfg_splash :: bool
  cfg_splashRadius :: real

fun TOWER_TYPES :: "tower_type \<Rightarrow> tower_config" where
  "TOWER_TYPES BASIC_tower = \<lparr> cfg_damage = 25, cfg_range = 100, cfg_fireRate = 2,
      cfg_cost = 100, cfg_size_t = 40, cfg_projectileSpeed = 200, cfg_projectileSize = 6,
      cfg_splash = False, cfg_splashRadius = 0 \<rparr>"
| "TOWER_TYPES SNIPER = \<lparr> cfg_damage = 80, cfg_range = 180, cfg_fireRate = 8 / 10,
      cfg_cost = 250, cfg_size_t = 40, cfg_projectileSpeed = 400, cfg_projectileSize = 8,
      cfg_splash = False, cfg_splashRadius = 0 \<rparr>"
| "TOWER_TYPES AREA = \<lparr> cfg_damage = 40, cfg_range = 80, cfg_fireRate = 12 / 10,
      cfg_cost = 175, cfg_size_t = 40, cfg_projectileSpeed = 150, cfg_projectileSize = 10,
      cfg_splash = True, cfg_splashRadius = 50 \<rparr>"

record tower_stats =
  enemiesKilled :: nat
  totalDamageDealt :: real
  shotsFired :: nat
  shotsHit :: nat
  timeActive :: real

text \<open>
  The tower kinds are the keys of \<open>TOWER_TYPES\<close>; as for enemies, the constructor throws on
  any other key and the datatype admits the three keys only.  The random debugging id and
  the colours are not modelled.

  The field \<open>canShoot_own\<close> is the instance's own property named \<open>canShoot\<close>.  The
  constructor assigns \<open>this.canShoot = true\<close>, and nothing in the repository deletes or
  reassigns it, so every constructed tower has \<open>Some True\<close>.  \<open>None\<close> is an instance
  without the own property, on which the name resolves to the method \<open>canShoot()\<close> of the
  class.
\<close>

record tower =
  ttype :: tower_type
  damage_t :: real
  range_t :: real
  fireRate :: real
  cost :: real
  projectileSpeed :: real
  projectileSize :: real
  splash_t :: bool
  splashRadius_t :: real
  size_t :: real
  position_t :: "real \<times> real"
  gridPosition :: "int \<times> int"
  target_t :: "addr option"
  targetingMode :: string
  lastShotTime :: real
  shotCooldown :: real
  canShoot_own :: "bool option"
  active_t :: bool
  selected :: bool
  showRange :: bool
  rotationAngle :: real
  targetAngle :: real
  rotationSpeed :: real
  muzzleFlash :: real
  stats_t :: tower_stats

definition pixelToGrid :: "real \<Rightarrow> real \<Rightarrow> int \<times> int" where
  "pixelToGrid pixelX pixelY = (\<lfloor>pixelX / 64\<rfloor>, \<lfloor>pixelY / 64\<rfloor>)"

definition Tower :: "tower_type \<Rightarrow> real \<Rightarrow> real \<Rightarrow> tower" where
  "Tower ty x y =
     (let config = TOWER_TYPES ty in
      \<lparr> ttype = ty, damage_t = cfg_damage config, range_t = cfg_range config,
        fireRate = cfg_fireRate config, cost = cfg_cost config,
        projectileSpeed = cfg_projectileSpeed config,
        projectileSize = cfg_projectileSize config,
        splash_t = cfg_splash config, splashRadius_t = cfg_splashRadius config,
        size_t = cfg_size_t config, position_t = (x, y), gridPosition = pixelToGrid x y,
        target_t = None, targetingMode = ''closest_to_end'',
        lastShotTime = 0, shotCooldown = 1000 / cfg_fireRate config,
        canShoot_own = Some True,
        active_t = True, selected = False, showRange = False,
        rotationAngle = 0, targetAngle = 0, rotationSpeed = 5, muzzleFlash = 0,
        stats_t = \<lparr> enemiesKilled = 0, totalDamageDealt = 0, shotsFired = 0,
                    shotsHit = 0, timeActive = 0 \<rparr> \<rparr>)"

definition isInRange :: "tower \<Rightarrow> enemy \<Rightarrow> bool" where
  "isInRange t e =
     (let dist = distance (fst (position_t t)) (snd (position_t t))
                   (fst (position e)) (snd (position e))
      in dist \<le> range_t t)"

text \<open>
  \<open>Array.prototype.reduce\<close> without an initial value: the first element starts the
  accumulator.  On an empty array it throws; \<open>selectBestTarget\<close> returns before that.
\<close>

fun reduce :: "('a \<Rightarrow> 'a \<Rightarrow> 'a) \<Rightarrow> 'a list \<Rightarrow> error + 'a" where
  "reduce f [] = Inl TypeError"
| "reduce f (x # xs) = Inr (foldl f x xs)"

text \<open>The distance from the tower to an enemy, as the policy \<open>closest_to_tower\<close> computes it.\<close>

definition towerDistance :: "tower \<Rightarrow> enemy \<Rightarrow> real" where
  "towerDistance t e =
     distance (fst (position_t t)) (snd (position_t t)) (fst (position e)) (snd (position e))"

definition selectBestTarget :: "tower \<Rightarrow> store \<Rightarrow> addr list \<Rightarrow> error + addr option" where
  "selectBestTarget t st validTargets =
     (if length validTargets = 0 then Inr None
      else if targetingMode t = ''closest_to_end'' then
        map_sum id Some (reduce (\<lambda>best current.
          if getDistanceToEnd (st current) < getDistanceToEnd (st best) then current else best)
          validTargets)
      else if targetingMode t = ''closest_to_tower'' then
        map_sum id Some (reduce (\<lambda>best current.
          (let currentDist = towerDistance t (st current);
               bestDist = towerDistance t (st best)
           in if currentDist < bestDist then current else best))
          validTargets)
      else if targetingMode t = ''strongest'' then
        map_sum id Some (reduce (\<lambda>best current.
          if health (st current) > health (st best) then current else best)
          validTargets)
      else if targetingMode t = ''weakest'' then
        map_sum id Some (reduce (\<lambda>best current.
          if health (st current) < health (st best) then current else best)
          validTargets)
      else Inr (Some (validTargets ! 0)))"

text \<open>
  The test \<open>this.target && this.target.isAlive() && this.isInRange(this.target)\<close> of
  \<open>findTarget\<close> and \<open>attemptShoot\<close>.
\<close>

definition targetValid :: "tower \<Rightarrow> store \<Rightarrow> bool" where
  "targetValid t st =
     (case target_t t of None \<Rightarrow> False | Some a \<Rightarrow> isAlive (st a) \<and> isInRange t (st a))"

definition findTarget :: "tower \<Rightarrow> store \<Rightarrow> addr list \<Rightarrow> error + tower" where
  "findTarget t st enemies =
     (let t1 = (if target_t t \<noteq> None \<and> \<not> targetValid t st then t \<lparr> target_t := None \<rparr> else t) in
      if targetValid t1 st then Inr t1
      else
        (let validTargets = filter (\<lambda>a. isAlive (st a) \<and> isInRange t1 (st a)) enemies in
         if length validTargets = 0 then Inr (t1 \<lparr> target_t := None \<rparr>)
         else
           (case selectBestTarget t1 st validTargets of
              Inl err \<Rightarrow> Inl err
            | Inr best \<Rightarrow> Inr (t1 \<lparr> target_t := best \<rparr>))))"

lemma ceiling_two_less:
  fixes x :: real
  assumes "1 < x"
  shows "nat \<lceil>x - 2\<rceil> < nat \<lceil>x\<rceil>"
proof -
  have "2 \<le> \<lceil>x\<rceil>" using assms by linarith
  moreover have "\<lceil>x - 2\<rceil> = \<lceil>x\<rceil> - 2" by linarith
  ultimately show ?thesis by linarith
qed

text \<open>The two normalising loops \<open>while (a > Math.PI) a -= 2 * Math.PI\<close> and its mirror.\<close>

function normalizeAbove :: "real \<Rightarrow> real" where
  "normalizeAbove a = (if a > pi then normalizeAbove (a - 2 * pi) else a)"
  by pat_completeness auto
termination
proof (relation "measure (\<lambda>a. nat \<lceil>a / pi\<rceil>)")
  show "wf (measure (\<lambda>a. nat \<lceil>a / pi\<rceil>))" by simp
next
  fix a :: real
  assume h: "pi < a"
  have e: "(a - 2 * pi) / pi = a / pi - 2"
    using pi_gt_zero by (simp add: diff_divide_distrib)
  have "1 < a / pi" using h pi_gt_zero by (simp add: pos_less_divide_eq)
  then have "nat \<lceil>a / pi - 2\<rceil> < nat \<lceil>a / pi\<rceil>" by (rule ceiling_two_less)
  then show "(a - 2 * pi, a) \<in> measure (\<lambda>a. nat \<lceil>a / pi\<rceil>)"
    unfolding in_measure e .
qed

function normalizeBelow :: "real \<Rightarrow> real" where
  "normalizeBelow a = (if a < - pi then normalizeBelow (a + 2 * pi) else a)"
  by pat_completeness auto
termination
proof (relation "measure (\<lambda>a. nat \<lceil>- a / pi\<rceil>)")
  show "wf (measure (\<lambda>a. nat \<lceil>- a / pi\<rceil>))" by simp
next
  fix a :: real
  assume h: "a < - pi"
  have e: "- (a + 2 * pi) / pi = - a / pi - 2"
    using pi_gt_zero by (simp add: diff_divide_distrib)
  have "pi < - a" using h by simp
  then have "1 < - a / pi" using pi_gt_zero by (simp add: field_simps)
  then have "nat \<lceil>- a / pi - 2\<rceil> < nat \<lceil>- a / pi\<rceil>" by (rule ceiling_two_less)
  then show "(a + 2 * pi, a) \<in> measure (\<lambda>a. nat \<lceil>- a / pi\<rceil>)"
    unfolding in_measure e .
qed

declare normalizeAbove.simps [simp del] normalizeBelow.simps [simp del]

definition updateRotation :: "tower \<Rightarrow> store \<Rightarrow> real \<Rightarrow> tower" where
  "updateRotation t st deltaTime =
     (case target_t t of
        None \<Rightarrow> t
      | Some a \<Rightarrow>
          (let t1 = t \<lparr> targetAngle := angleBetween (fst (position_t t)) (snd (position_t t))
                                         (fst (position (st a))) (snd (position (st a))) \<rparr>;
               angleDiff = targetAngle t1 - rotationAngle t1;
               normalizedDiff = normalizeBelow (normalizeAbove angleDiff);
               rotationStep = rotationSpeed t1 * (deltaTime / 1000);
               t2 = (if \<bar>normalizedDiff\<bar> < rotationStep
                     then t1 \<lparr> rotationAngle := targetAngle t1 \<rparr>
                     else t1 \<lparr> rotationAngle := rotationAngle t1 + sgn normalizedDiff * rotationStep \<rparr>)
           in t2 \<lparr> rotationAngle := normalizeBelow (normalizeAbove (rotationAngle t2)) \<rparr>))"

text \<open>
  The method \<open>canShoot()\<close> of the class, and what the call expression \<open>this.canShoot()\<close>
  does: on an instance whose own property \<open>canShoot\<close> holds a boolean, calling it throws a
  TypeError; otherwise the method runs.  \<open>now\<close> is the value of \<open>Date.now()\<close>; all reads
  of the clock within one call are taken at the same instant.
\<close>

definition canShoot :: "tower \<Rightarrow> real \<Rightarrow> bool" where
  "canShoot t now = (let currentTime = now in (currentTime - lastShotTime t) \<ge> shotCooldown t)"

definition call_canShoot :: "tower \<Rightarrow> real \<Rightarrow> error + bool" where
  "call_canShoot t now =
     (case canShoot_own t of Some b \<Rightarrow> Inl TypeError | None \<Rightarrow> Inr (canShoot t now))"

text \<open>\<open>shoot\<close> returns the tower and the projectile it returns (\<open>None\<close> for null).\<close>

definition shoot :: "tower \<Rightarrow> store \<Rightarrow> real \<Rightarrow> error + (tower \<times> projectile option)" where
  "shoot t st now =
     (case call_canShoot t now of
        Inl err \<Rightarrow> Inl err
      | Inr ready \<Rightarrow>
          if \<not> ready \<or> target_t t = None then Inr (t, None)
          else
            (let projectile = Projectile (fst (position_t t)) (snd (position_t t)) (target_t t)
                                (damage_t t) (projectileSpeed t) (splash_t t) (splashRadius_t t) st;
                 t1 = t \<lparr> lastShotTime := now, muzzleFlash := 100 \<rparr>;
                 t2 = t1 \<lparr> stats_t := (stats_t t1) \<lparr> shotsFired := shotsFired (stats_t t1) + 1 \<rparr> \<rparr>
             in Inr (t2, Some projectile)))"

text \<open>
  The value \<open>normalizedDiff\<close> of \<open>attemptShoot\<close>: the shorter arc between the facing angle
  and the target angle.
\<close>

definition aimError :: "tower \<Rightarrow> real" where
  "aimError t =
     (let angleDiff = \<bar>targetAngle t - rotationAngle t\<bar> in min angleDiff (2 * pi - angleDiff))"

text \<open>
  \<open>attemptShoot\<close> calls \<open>shoot()\<close> and drops the projectile it returns; the second
  component records whether it did call \<open>shoot()\<close> and got a projectile.
\<close>

definition attemptShoot :: "tower \<Rightarrow> store \<Rightarrow> real \<Rightarrow> real \<Rightarrow> error + (tower \<times> bool)" where
  "attemptShoot t st deltaTime now =
     (case call_canShoot t now of
        Inl err \<Rightarrow> Inl err
      | Inr ready \<Rightarrow>
          if \<not> ready then Inr (t, False)
          else if \<not> targetValid t st then Inr (t, False)
          else
            (let normalizedDiff = aimError t in
             if normalizedDiff > 1 / 10 then Inr (t, False)
             else
               (case shoot t st now of
                  Inl err \<Rightarrow> Inl err
                | Inr (t', pr) \<Rightarrow> Inr (t', pr \<noteq> None))))"

definition updateVisualEffects_t :: "tower \<Rightarrow> real \<Rightarrow> tower" where
  "updateVisualEffects_t t deltaTime =
     (if muzzleFlash t > 0 then
        (let t1 = t \<lparr> muzzleFlash := muzzleFlash t - deltaTime \<rparr> in
         if muzzleFlash t1 < 0 then t1 \<lparr> muzzleFlash := 0 \<rparr> else t1)
      else t)"

definition update_t :: "tower \<Rightarrow> store \<Rightarrow> addr list \<Rightarrow> real \<Rightarrow> real \<Rightarrow> error + (tower \<times> bool)" where
  "update_t t st enemies deltaTime now =
     (if \<not> active_t t then Inr (t, False)
      else
        (let t1 = t \<lparr> stats_t := (stats_t t) \<lparr> timeActive := timeActive (stats_t t) + deltaTime \<rparr> \<rparr>;
             t2 = updateVisualEffects_t t1 deltaTime
         in case findTarget t2 st enemies of
              Inl err \<Rightarrow> Inl err
            | Inr t3 \<Rightarrow> attemptShoot (updateRotation t3 st deltaTime) st deltaTime now))"

section \<open>Game: the tower step of updateEntities\<close>

text \<open>
  The body of \<open>this.towers.forEach\<close> in \<open>Game.updateEntities\<close> for one tower: the tower's
  own update, then the game's own firing test.  The result is the tower, whether
  \<open>attemptShoot\<close> fired inside the update, and the projectile pushed onto the game's
  projectile array, if any.
\<close>

definition updateEntities_tower ::
  "tower \<Rightarrow> store \<Rightarrow> addr list \<Rightarrow> real \<Rightarrow> real \<Rightarrow> error + (tower \<times> bool \<times> projectile option)" where
  "updateEntities_tower t st enemies deltaTime now =
     (case update_t t st enemies deltaTime now of
        Inl err \<Rightarrow> Inl err
      | Inr (t1, firedInUpdate) \<Rightarrow>
          (case call_canShoot t1 now of
             Inl err \<Rightarrow> Inl err
           | Inr ready \<Rightarrow>
               if ready \<and> target_t t1 \<noteq> None then
                 (case shoot t1 st now of
                    Inl err \<Rightarrow> Inl err
                  | Inr (t2, pr) \<Rightarrow> Inr (t2, firedInUpdate, pr))
               else Inr (t1, firedInUpdate, None)))"

text \<open>
  The projectile that the step pushes onto the game's projectile array: none when the step
  pushes nothing, and none when an exception aborts it.
\<close>

definition emitted :: "error + (tower \<times> bool \<times> projectile option) \<Rightarrow> projectile option" where
  "emitted r = (case r of Inl err \<Rightarrow> None | Inr (t, firedInUpdate, pr) \<Rightarrow> pr)"

section \<open>Numbers that may be infinite or NaN\<close>

text \<open>
  The wave statistics start with \<open>fastestWave = Infinity\<close> and divide by a counter that
  can be zero, so they need the special values of JavaScript numbers.  The operations
  below are the IEEE rules on these values, without rounding and without negative zero
  (no operand of the statistics can be one).
\<close>

datatype jsnum = Num real | PosInfinity | NegInfinity | NaN

fun js_add :: "jsnum \<Rightarrow> jsnum \<Rightarrow> jsnum" where
  "js_add NaN _ = NaN"
| "js_add _ NaN = NaN"
| "js_add (Num a) (Num b) = Num (a + b)"
| "js_add PosInfinity NegInfinity = NaN"
| "js_add NegInfinity PosInfinity = NaN"
| "js_add PosInfinity _ = PosInfinity"
| "js_add _ PosInfinity = PosInfinity"
| "js_add NegInfinity _ = NegInfinity"
| "js_add _ NegInfinity = NegInfinity"

fun js_mul :: "jsnum \<Rightarrow> jsnum \<Rightarrow> jsnum" where
  "js_mul NaN _ = NaN"
| "js_mul _ NaN = NaN"
| "js_mul (Num a) (Num b) = Num (a * b)"
| "js_mul PosInfinity (Num b) =
     (if b = 0 then NaN else if 0 < b then PosInfinity else NegInfinity)"
| "js_mul NegInfinity (Num b) =
     (if b = 0 then NaN else if 0 < b then NegInfinity else PosInfinity)"
| "js_mul (Num a) PosInfinity =
     (if a = 0 then NaN else if 0 < a then PosInfinity else NegInfinity)"
| "js_mul (Num a) NegInfinity =
     (if a = 0 then NaN else if 0 < a then NegInfinity else PosInfinity)"
| "js_mul PosInfinity PosInfinity = PosInfinity"
| "js_mul NegInfinity NegInfinity = PosInfinity"
| "js_mul PosInfinity NegInfinity = NegInfinity"
| "js_mul NegInfinity PosInfinity = NegInfinity"

fun js_div :: "jsnum \<Rightarrow> jsnum \<Rightarrow> jsnum" where
  "js_div NaN _ = NaN"
| "js_div _ NaN = NaN"
| "js_div (Num a) (Num b) =
     (if b = 0 then (if a = 0 then NaN else if 0 < a then PosInfinity else NegInfinity)
      else Num (a / b))"
| "js_div (Num a) _ = Num 0"
| "js_div PosInfinity (Num b) = (if 0 \<le> b then PosInfinity else NegInfinity)"
| "js_div NegInfinity (Num b) = (if 0 \<le> b then NegInfinity else PosInfinity)"
| "js_div _ _ = NaN"

fun js_less :: "jsnum \<Rightarrow> jsnum \<Rightarrow> bool" where
  "js_less NaN _ = False"
| "js_less _ NaN = False"
| "js_less (Num a) (Num b) = (a < b)"
| "js_less _ NegInfinity = False"
| "js_less NegInfinity _ = True"
| "js_less PosInfinity _ = False"
| "js_less _ PosInfinity = True"

section \<open>WaveManager\<close>

record wave_group =
  g_type :: enemy_type
  g_count :: nat
  g_spawnInterval :: real

record wave_def =
  waveNumber :: nat
  wd_enemies :: "wave_group list"
  wd_reward :: real

record spawn_entry =
  se_type :: enemy_type
  spawnTime :: real

record wave_stats =
  totalEnemiesSpawned :: nat
  totalWavesCompleted :: nat
  averageWaveTime :: jsnum
  fastestWave :: jsnum
  slowestWave :: jsnum

text \<open>
  \<open>isPaused\<close> is not set by the constructor: \<open>None\<close> is the missing property.
  \<open>onEnemySpawn\<close> is the spawn callback seen through its effect on the array that
  \<open>this.enemies\<close> refers to: the game's handler pushes the new enemy onto that same array.
  The other three callbacks do not touch the WaveManager or the array and are left out.
  \<open>now\<close> is the value of \<open>Date.now()\<close>, taken once per call, and \<open>rnd i\<close> is the value
  \<open>Math.random()\<close> returns at step \<open>i\<close> of the shuffle, a number in \<open>[0, 1)\<close>.
\<close>

record wave_manager =
  waveData :: "wave_def list"
  totalWaves :: nat
  currentWave :: nat
  waveInProgress :: bool
  waveComplete :: bool
  allWavesComplete :: bool
  enemiesSpawned :: nat
  enemiesToSpawn :: nat
  spawnQueue :: "spawn_entry list"
  lastSpawnTime_w :: real
  nextSpawnTime :: real
  waveStartTime :: real
  timeBetweenWaves :: real
  waveCountdown :: real
  isCountingDown :: bool
  stats :: wave_stats
  enemies :: "enemy list"
  onEnemySpawn :: "(enemy list \<Rightarrow> enemy \<Rightarrow> enemy list) option"
  isPaused :: "bool option"

definition WAVE_INTERVAL :: real where
  "WAVE_INTERVAL = 8000"

definition initialStats :: wave_stats where
  "initialStats = \<lparr> totalEnemiesSpawned = 0, totalWavesCompleted = 0,
     averageWaveTime = Num 0, fastestWave = PosInfinity, slowestWave = Num 0 \<rparr>"

definition WAVE_DATA :: "wave_def list" where
  "WAVE_DATA =
     [\<lparr> waveNumber = 1, wd_enemies =
          [\<lparr> g_type = BASIC, g_count = 10, g_spawnInterval = 1000 \<rparr>], wd_reward = 50 \<rparr>,
      \<lparr> waveNumber = 2, wd_enemies =
          [\<lparr> g_type = BASIC, g_count = 15, g_spawnInterval = 800 \<rparr>], wd_reward = 75 \<rparr>,
      \<lparr> waveNumber = 3, wd_enemies =
          [\<lparr> g_type = BASIC, g_count = 10, g_spawnInterval = 800 \<rparr>,
           \<lparr> g_type = TANK, g_count = 3, g_spawnInterval = 2000 \<rparr>], wd_reward = 100 \<rparr>,
      \<lparr> waveNumber = 4, wd_enemies =
          [\<lparr> g_type = BASIC, g_count = 15, g_spawnInterval = 700 \<rparr>,
           \<lparr> g_type = TANK, g_count = 5, g_spawnInterval = 1800 \<rparr>], wd_reward = 125 \<rparr>,
      \<lparr> waveNumber = 5, wd_enemies =
          [\<lparr> g_type = BASIC, g_count = 20, g_spawnInterval = 600 \<rparr>,
           \<lparr> g_type = TANK, g_count = 8, g_spawnInterval = 1500 \<rparr>,
           \<lparr> g_type = FAST, g_count = 2, g_spawnInterval = 3000 \<rparr>], wd_reward = 150 \<rparr>,
      \<lparr> waveNumber = 6, wd_enemies =
          [\<lparr> g_type = BASIC, g_count = 25, g_spawnInterval = 500 \<rparr>,
           \<lparr> g_type = TANK, g_count = 10, g_spawnInterval = 1200 \<rparr>,
           \<lparr> g_type = FAST, g_count = 5, g_spawnInterval = 2500 \<rparr>], wd_reward = 200 \<rparr>,
      \<lparr> waveNumber = 7, wd_enemies =
          [\<lparr> g_type = BASIC, g_count = 30, g_spawnInterval = 400 \<rparr>,
           \<lparr> g_type = TANK, g_count = 12, g_spawnInterval = 1000 \<rparr>,
           \<lparr> g_type = FAST, g_count = 8, g_spawnInterval = 2000 \<rparr>], wd_reward = 250 \<rparr>,
      \<lparr> waveNumber = 8, wd_enemies =
          [\<lparr> g_type = BASIC, g_count = 35, g_spawnInterval = 350 \<rparr>,
           \<lparr> g_type = TANK, g_count = 15, g_spawnInterval = 800 \<rparr>,
           \<lparr> g_type = FAST, g_count = 12, g_spawnInterval = 1500 \<rparr>], wd_reward = 300 \<rparr>,
      \<lparr> waveNumber = 9, wd_enemies =
          [\<lparr> g_type = BASIC, g_count = 40, g_spawnInterval = 300 \<rparr>,
           \<lparr> g_type = TANK, g_count = 20, g_spawnInterval = 600 \<rparr>,
           \<lparr> g_type = FAST, g_count = 15, g_spawnInterval = 1200 \<rparr>], wd_reward = 400 \<rparr>,
      \<lparr> waveNumber = 10, wd_enemies =
          [\<lparr> g_type = BASIC, g_count = 50, g_spawnInterval = 250 \<rparr>,
           \<lparr> g_type = TANK, g_count = 25, g_spawnInterval = 500 \<rparr>,
           \<lparr> g_type = FAST, g_count = 20, g_spawnInterval = 1000 \<rparr>], wd_reward = 500 \<rparr>]"

definition WaveManager :: "wave_def list \<Rightarrow> wave_manager" where
  "WaveManager wd =
     \<lparr> waveData = wd, totalWaves = length wd, currentWave = 0,
       waveInProgress = False, waveComplete = False, allWavesComplete = False,
       enemiesSpawned = 0, enemiesToSpawn = 0, spawnQueue = [],
       lastSpawnTime_w = 0, nextSpawnTime = 0, waveStartTime = 0,
       timeBetweenWaves = WAVE_INTERVAL, waveCountdown = 0, isCountingDown = False,
       stats = initialStats, enemies = [], onEnemySpawn = None, isPaused = None \<rparr>"

definition getCurrentWaveData :: "wave_manager \<Rightarrow> wave_def option" where
  "getCurrentWaveData wm =
     (if currentWave wm \<ge> length (waveData wm) then None
      else Some (waveData wm ! currentWave wm))"

definition shouldShuffleSpawnOrder :: "wave_manager \<Rightarrow> bool" where
  "shouldShuffleSpawnOrder wm = (currentWave wm \<ge> 3)"

text \<open>The Fisher-Yates loop, from \<open>i = length - 1\<close> down to \<open>1\<close>.\<close>

fun shuffleLoop :: "(nat \<Rightarrow> real) \<Rightarrow> nat \<Rightarrow> spawn_entry list \<Rightarrow> spawn_entry list" where
  "shuffleLoop rnd 0 q = q"
| "shuffleLoop rnd (Suc i) q =
     (let j = nat \<lfloor>rnd (Suc i) * real (Suc i + 1)\<rfloor> in
      shuffleLoop rnd i (q [Suc i := q ! j, j := q ! Suc i]))"

definition shuffleSpawnQueue :: "(nat \<Rightarrow> real) \<Rightarrow> wave_manager \<Rightarrow> wave_manager" where
  "shuffleSpawnQueue rnd wm =
     (let q = shuffleLoop rnd (length (spawnQueue wm) - 1) (spawnQueue wm) in
      wm \<lparr> spawnQueue :=
             map (\<lambda>(index, enemy). enemy \<lparr> spawnTime := real index * 800 \<rparr>)
               (zip [0 ..< length q] q) \<rparr>)"

text \<open>
  The loops of \<open>prepareSpawnQueue\<close> touch \<open>this.spawnQueue\<close> and \<open>this.enemiesToSpawn\<close>
  only; they run on that pair.  \<open>pushGroup\<close> is the inner loop: \<open>k\<close> more entries of one
  group.
\<close>

fun pushGroup :: "wave_group \<Rightarrow> nat \<Rightarrow> spawn_entry list \<times> nat \<Rightarrow> spawn_entry list \<times> nat" where
  "pushGroup enemyGroup 0 (queue, toSpawn) = (queue, toSpawn)"
| "pushGroup enemyGroup (Suc k) (queue, toSpawn) =
     pushGroup enemyGroup k
       (queue @ [\<lparr> se_type = g_type enemyGroup,
                   spawnTime = real toSpawn * g_spawnInterval enemyGroup \<rparr>],
        toSpawn + 1)"

text \<open>The outer loop, over the groups of the wave, from an empty queue.\<close>

definition pushGroups :: "wave_group list \<Rightarrow> spawn_entry list \<times> nat" where
  "pushGroups groups =
     foldl (\<lambda>acc enemyGroup. pushGroup enemyGroup (g_count enemyGroup) acc) ([], 0) groups"

definition prepareSpawnQueue :: "(nat \<Rightarrow> real) \<Rightarrow> wave_def \<Rightarrow> wave_manager \<Rightarrow> wave_manager" where
  "prepareSpawnQueue rnd wd wm =
     (let wm1 = wm \<lparr> spawnQueue := fst (pushGroups (wd_enemies wd)),
                     enemiesToSpawn := snd (pushGroups (wd_enemies wd)) \<rparr>
      in if shouldShuffleSpawnOrder wm1 then shuffleSpawnQueue rnd wm1 else wm1)"

definition getNextSpawnDelay :: "wave_manager \<Rightarrow> real" where
  "getNextSpawnDelay wm =
     (if enemiesSpawned wm \<ge> length (spawnQueue wm) then 0
      else
        (let nextEnemy = spawnQueue wm ! enemiesSpawned wm in
         if enemiesSpawned wm = 0 then spawnTime nextEnemy
         else
           (let currentEnemy = spawnQueue wm ! (enemiesSpawned wm - 1) in
            max 500 (spawnTime nextEnemy - spawnTime currentEnemy))))"

definition initializeWave :: "real \<Rightarrow> (nat \<Rightarrow> real) \<Rightarrow> wave_manager \<Rightarrow> wave_manager" where
  "initializeWave now rnd wm =
     (case getCurrentWaveData wm of
        None \<Rightarrow> wm
      | Some wd \<Rightarrow>
          (let wm1 = wm \<lparr> waveInProgress := True, waveComplete := False, waveStartTime := now \<rparr>;
               wm2 = prepareSpawnQueue rnd wd wm1;
               wm3 = wm2 \<lparr> enemiesSpawned := 0, lastSpawnTime_w := now \<rparr>
           in wm3 \<lparr> nextSpawnTime := lastSpawnTime_w wm3 + getNextSpawnDelay wm3 \<rparr>))"

definition completeAllWaves :: "wave_manager \<Rightarrow> wave_manager" where
  "completeAllWaves wm =
     (if allWavesComplete wm then wm
      else wm \<lparr> allWavesComplete := True, isCountingDown := False \<rparr>)"

text \<open>\<open>startNextWave\<close> returns the WaveManager and the boolean the method returns.\<close>

definition startNextWave ::
  "bool \<Rightarrow> real \<Rightarrow> (nat \<Rightarrow> real) \<Rightarrow> wave_manager \<Rightarrow> wave_manager \<times> bool" where
  "startNextWave manual now rnd wm =
     (if waveInProgress wm \<or> allWavesComplete wm then (wm, False)
      else if currentWave wm \<ge> totalWaves wm then (completeAllWaves wm, False)
      else
        (let wm1 = (if manual \<and> isCountingDown wm
                    then wm \<lparr> isCountingDown := False, waveCountdown := 0 \<rparr> else wm)
         in (initializeWave now rnd wm1, True)))"

definition spawnNextEnemy :: "real \<Rightarrow> wave_manager \<Rightarrow> wave_manager" where
  "spawnNextEnemy now wm =
     (if enemiesSpawned wm \<ge> length (spawnQueue wm) then wm
      else
        (let enemyData = spawnQueue wm ! enemiesSpawned wm;
             enemy = Enemy (se_type enemyData);
             wm1 = (case onEnemySpawn wm of
                      None \<Rightarrow> wm
                    | Some push \<Rightarrow> wm \<lparr> enemies := push (enemies wm) enemy \<rparr>);
             wm2 = wm1 \<lparr> enemiesSpawned := enemiesSpawned wm1 + 1,
                         stats := (stats wm1) \<lparr> totalEnemiesSpawned :=
                                                 totalEnemiesSpawned (stats wm1) + 1 \<rparr> \<rparr>;
             wm3 = wm2 \<lparr> lastSpawnTime_w := now \<rparr>
         in wm3 \<lparr> nextSpawnTime := lastSpawnTime_w wm3 + getNextSpawnDelay wm3 \<rparr>))"

definition processEnemySpawning :: "real \<Rightarrow> wave_manager \<Rightarrow> wave_manager" where
  "processEnemySpawning now wm =
     (if enemiesSpawned wm \<ge> enemiesToSpawn wm then wm
      else (let currentTime = now in
            if currentTime \<ge> nextSpawnTime wm then spawnNextEnemy now wm else wm))"

definition updateWaveStats :: "real \<Rightarrow> wave_manager \<Rightarrow> wave_manager" where
  "updateWaveStats waveTime wm =
     (let s = stats wm;
          totalTime = js_add (js_mul (averageWaveTime s)
                                (Num (real_of_int (int (totalWavesCompleted s) - 1))))
                        (Num waveTime);
          s1 = s \<lparr> averageWaveTime := js_div totalTime (Num (real (totalWavesCompleted s))) \<rparr>;
          s2 = (if js_less (Num waveTime) (fastestWave s1)
                then s1 \<lparr> fastestWave := Num waveTime \<rparr> else s1);
          s3 = (if js_less (slowestWave s2) (Num waveTime)
                then s2 \<lparr> slowestWave := Num waveTime \<rparr> else s2)
      in wm \<lparr> stats := s3 \<rparr>)"

definition startWaveCountdown :: "wave_manager \<Rightarrow> wave_manager" where
  "startWaveCountdown wm = wm \<lparr> isCountingDown := True, waveCountdown := timeBetweenWaves wm \<rparr>"

definition completeCurrentWave :: "real \<Rightarrow> wave_manager \<Rightarrow> wave_manager" where
  "completeCurrentWave now wm =
     (if waveComplete wm then wm
      else
        (let wm1 = wm \<lparr> waveComplete := True, waveInProgress := False \<rparr>;
             waveTime = now - waveStartTime wm1;
             wm2 = updateWaveStats waveTime wm1;
             wm3 = wm2 \<lparr> currentWave := currentWave wm2 + 1,
                         stats := (stats wm2) \<lparr> totalWavesCompleted :=
                                                 totalWavesCompleted (stats wm2) + 1 \<rparr> \<rparr>
         in if currentWave wm3 < totalWaves wm3 then startWaveCountdown wm3 else wm3))"

definition checkWaveCompletion :: "real \<Rightarrow> wave_manager \<Rightarrow> wave_manager" where
  "checkWaveCompletion now wm =
     (if waveComplete wm then wm
      else
        (let allSpawned = enemiesSpawned wm \<ge> enemiesToSpawn wm;
             noEnemiesAlive = (length (enemies wm) = 0 \<or> list_all (\<lambda>enemy. \<not> isAlive enemy) (enemies wm))
         in if allSpawned \<and> noEnemiesAlive then completeCurrentWave now wm else wm))"

definition updateCountdown :: "real \<Rightarrow> real \<Rightarrow> (nat \<Rightarrow> real) \<Rightarrow> wave_manager \<Rightarrow> wave_manager" where
  "updateCountdown deltaTime now rnd wm =
     (if \<not> isCountingDown wm then wm
      else
        (let wm1 = wm \<lparr> waveCountdown := waveCountdown wm - deltaTime \<rparr> in
         if waveCountdown wm1 \<le> 0 then
           fst (startNextWave False now rnd (wm1 \<lparr> isCountingDown := False, waveCountdown := 0 \<rparr>))
         else wm1))"

definition checkAllWavesComplete :: "wave_manager \<Rightarrow> wave_manager" where
  "checkAllWavesComplete wm =
     (if allWavesComplete wm then wm
      else if currentWave wm \<ge> totalWaves wm \<and> \<not> waveInProgress wm then completeAllWaves wm
      else wm)"

definition update_w ::
  "real \<Rightarrow> enemy list \<Rightarrow> real \<Rightarrow> (nat \<Rightarrow> real) \<Rightarrow> wave_manager \<Rightarrow> wave_manager" where
  "update_w deltaTime currentEnemies now rnd wm =
     (let wm1 = wm \<lparr> enemies := currentEnemies \<rparr>;
          wm2 = (if isCountingDown wm1 then updateCountdown deltaTime now rnd wm1 else wm1);
          wm3 = (if waveInProgress wm2
                 then checkWaveCompletion now (processEnemySpawning now wm2) else wm2)
      in checkAllWavesComplete wm3)"

text \<open>A run of ticks: each with its elapsed time, enemy array, clock and random source.\<close>

fun updates_w ::
  "(real \<times> enemy list \<times> real \<times> (nat \<Rightarrow> real)) list \<Rightarrow> wave_manager \<Rightarrow> wave_manager" where
  "updates_w [] wm = wm"
| "updates_w ((deltaTime, currentEnemies, now, rnd) # ticks) wm =
     updates_w ticks (update_w deltaTime currentEnemies now rnd wm)"

definition pause :: "wave_manager \<Rightarrow> wave_manager" where
  "pause wm = wm \<lparr> isPaused := Some True \<rparr>"

definition resume :: "real \<Rightarrow> wave_manager \<Rightarrow> wave_manager" where
  "resume now wm =
     (let wm1 = wm \<lparr> isPaused := Some False \<rparr>;
          currentTime = now
      in if waveInProgress wm1
         then wm1 \<lparr> nextSpawnTime := currentTime + getNextSpawnDelay wm1 \<rparr> else wm1)"

section \<open>Scenarios of the wave manager\<close>

text \<open>
  A random source that always returns 0, and the effect of the game's spawn handler
  \<open>Game.handleEnemySpawn\<close> on the enemy array: it pushes the new enemy.
\<close>

definition noRandom :: "nat \<Rightarrow> real" where
  "noRandom i = 0"

definition handleEnemySpawn :: "enemy list \<Rightarrow> enemy \<Rightarrow> enemy list" where
  "handleEnemySpawn es e = es @ [e]"

text \<open>
  Two waves played in turn with the shipped wave data: the first starts at clock 1000 and
  completes at 6000, the second starts at 14000 and completes at 17000.
\<close>

definition firstWaveStarted :: wave_manager where
  "firstWaveStarted = fst (startNextWave True 1000 noRandom (WaveManager WAVE_DATA))"

definition firstWaveDone :: wave_manager where
  "firstWaveDone = completeCurrentWave 6000 firstWaveStarted"

definition secondWaveStarted :: wave_manager where
  "secondWaveStarted = fst (startNextWave True 14000 noRandom firstWaveDone)"

definition secondWaveDone :: wave_manager where
  "secondWaveDone = completeCurrentWave 17000 secondWaveStarted"

text \<open>A manager between waves one and two, with five seconds left on the countdown.\<close>

definition countdownRunning :: wave_manager where
  "countdownRunning =
     (WaveManager WAVE_DATA) \<lparr> currentWave := 1, isCountingDown := True, waveCountdown := 5000 \<rparr>"

text \<open>The third wave of the shipped data, initialised at clock 0 without shuffling.\<close>

definition thirdWaveStarted :: wave_manager where
  "thirdWaveStarted = initializeWave 0 noRandom ((WaveManager WAVE_DATA) \<lparr> currentWave := 2 \<rparr>)"

text \<open>
  A manager wired as the game wires it (the spawn callback pushes onto the shared array),
  with a first wave of two basic enemies started at clock 0.
\<close>

definition smallWaveStarted :: wave_manager where
  "smallWaveStarted =
     fst (startNextWave True 0 noRandom
       ((WaveManager [\<lparr> waveNumber = 1,
                        wd_enemies = [\<lparr> g_type = BASIC, g_count = 2, g_spawnInterval = 1000 \<rparr>],
                        wd_reward = 50 \<rparr>])
          \<lparr> onEnemySpawn := Some handleEnemySpawn \<rparr>))"

section \<open>Scenarios of projectiles\<close>

text \<open>
  An enemy of a kind placed at a path progress, as the repository's tests place one: set
  \<open>pathProgress\<close>, then \<open>updatePositionFromPath()\<close>.
\<close>

definition enemyAt :: "enemy_type \<Rightarrow> real \<Rightarrow> enemy" where
  "enemyAt ty progress = updatePositionFromPath ((Enemy ty) \<lparr> pathProgress := progress \<rparr>)"

text \<open>
  A basic enemy 120 px along the path, at (100, 300), behind every reference; and the shot
  of a basic tower (damage 25, speed 200) fired at it from (0, 300).  \<open>basicShotMoved\<close> is
  that shot inside its first tick of 450 ms, after \<open>updatePosition\<close> and \<open>updateTrail\<close>.
\<close>

definition lineUp :: store where "lineUp = (\<lambda>_. enemyAt BASIC (120 / 1340))"

definition basicShot :: projectile where "basicShot = Projectile 0 300 (Some 0) 25 200 False 0 lineUp"

definition basicShotMoved :: projectile where
  "basicShotMoved = updateTrail (updatePosition (basicShot \<lparr> timeAlive := timeAlive basicShot + 450 \<rparr>) lineUp 450)"

text \<open>
  Five enemies on the first stretch of the path, placed as the repository's tests place
  one (by assigning \<open>position\<close>): at x = 100, 125, 140 and 200, and one at x = 90.  The
  shot of an area tower (damage 40, splash radius 50) when it has reached (90, 300), and
  the same shot with damage 90.
\<close>

definition crowd :: store where
  "crowd = (\<lambda>_. (Enemy BASIC) \<lparr> position := (200, 300) \<rparr>)
     (5 := (Enemy BASIC) \<lparr> position := (100, 300) \<rparr>,
      6 := (Enemy TANK) \<lparr> position := (125, 300) \<rparr>,
      7 := (Enemy BASIC) \<lparr> position := (140, 300) \<rparr>,
      9 := (Enemy BASIC) \<lparr> position := (90, 300) \<rparr>)"

definition areaShot :: projectile where
  "areaShot = (Projectile 0 300 (Some 5) 40 150 True 50 crowd) \<lparr> position_p := (90, 300) \<rparr>"

definition heavyShot :: projectile where
  "heavyShot = (Projectile 0 300 (Some 5) 90 150 True 50 crowd) \<lparr> position_p := (90, 300) \<rparr>"

section \<open>Scenarios of towers\<close>

text \<open>
  Target selection in the words of the specification, to compare \<open>findTarget\<close> against.
  The distance between two centres is the Euclidean one.  A tower holds a target when the
  unit it refers to is alive and within the range radius.  The candidates are the alive
  units of the array within the range radius of the tower, in array order.  The remaining
  route distance of a unit is \<open>(1 - progress) * totalLength\<close>.  Every operation is the
  operation on doubles.
\<close>

definition euclidean :: "real \<times> real \<Rightarrow> real \<times> real \<Rightarrow> real" where
  "euclidean a b =
     fsqrt (fadd (fmul (fsub (fst b) (fst a)) (fsub (fst b) (fst a)))
                 (fmul (fsub (snd b) (snd a)) (fsub (snd b) (snd a))))"

definition withinRange :: "tower \<Rightarrow> enemy \<Rightarrow> bool" where
  "withinRange t e = (euclidean (position_t t) (position e) \<le> range_t t)"

definition holdsTarget :: "tower \<Rightarrow> store \<Rightarrow> bool" where
  "holdsTarget t st =
     (case target_t t of None \<Rightarrow> False | Some a \<Rightarrow> alive (st a) \<and> withinRange t (st a))"

definition candidates :: "tower \<Rightarrow> store \<Rightarrow> addr list \<Rightarrow> addr list" where
  "candidates t st es = filter (\<lambda>a. alive (st a) \<and> withinRange t (st a)) es"

definition remainingRoute :: "enemy \<Rightarrow> real" where
  "remainingRoute e = fmul (fsub 1 (pathProgress e)) calculatePathLength"

text \<open>
  The scenario of the repository's test of the targeting system: a basic tower at
  (100, 100), range 100, an enemy at (120, 100) with progress 0.8 and one at (130, 100)
  with progress 0.5.  Beside them, as in the repository's test of the range, an enemy at
  (300, 100), out of range, with progress 0.95; an enemy in range at (110, 100) with
  progress 0.9 that has been killed; and two enemies in range whose progress is 0.25 and
  the next double above 0.25, which are equally far from the end of the route, since
  \<open>1 - progress\<close> rounds to 0.75 for both.
\<close>

definition testTower :: tower where "testTower = Tower BASIC_tower 100 100"

definition testEnemies :: store where
  "testEnemies = (\<lambda>_. Enemy BASIC)
     (5 := (Enemy BASIC) \<lparr> position := (120, 100), pathProgress := fl (8 / 10) \<rparr>,
      6 := (Enemy BASIC) \<lparr> position := (130, 100), pathProgress := fl (5 / 10) \<rparr>,
      7 := (Enemy BASIC) \<lparr> position := (300, 100), pathProgress := fl (95 / 100) \<rparr>,
      8 := fst (takeDamage ((Enemy BASIC) \<lparr> position := (110, 100), pathProgress := fl (9 / 10) \<rparr>) 100),
      9 := (Enemy BASIC) \<lparr> position := (100, 150), pathProgress := 1 / 4 \<rparr>,
      10 := (Enemy BASIC) \<lparr> position := (100, 160), pathProgress := 1 / 4 + 1 / 2 ^ 54 \<rparr>)"

text \<open>
  A basic tower placed at the centre of grid cell (1, 3), and a basic enemy 116 px along the
  path, at (96, 300) straight below it, behind every reference.  \<open>placedTower\<close> is the
  tower as the constructor builds it.  \<open>methodTower\<close> is the same record without the own
  property \<open>canShoot\<close>, on which \<open>canShoot()\<close> would reach the method of the class; no
  code of the repository builds such a tower, and it serves only to show what the firing
  tests would do behind the exception.
\<close>

definition placedTower :: tower where "placedTower = Tower BASIC_tower 96 224"

definition passingEnemy :: store where "passingEnemy = (\<lambda>_. enemyAt BASIC (116 / 1340))"

definition methodTower :: tower where "methodTower = placedTower \<lparr> canShoot_own := None \<rparr>"

section \<open>Facts about the helpers and the path\<close>

text \<open>
  \<open>fl\<close> in a binade: between \<open>2^k\<close> and \<open>2^(k+1)\<close> the doubles are the multiples of
  \<open>2^(k-52)\<close>.  Integers below \<open>2^53\<close> are doubles.
\<close>

lemma roundEven_of_int: "roundEven (of_int m) = m"
  by (simp add: roundEven_def)

lemma fl_zero: "fl 0 = 0"
  by (simp add: fl_def)

lemma ulp_eq:
  assumes "x \<noteq> 0" "2 powr (of_int e) \<le> \<bar>x\<bar>" "\<bar>x\<bar> < 2 powr (of_int e + 1)" "- 1022 \<le> e"
  shows "ulp x = 2 powr (of_int e - 52)"
proof -
  have "0 < \<bar>x\<bar>" using assms(1) by simp
  hence "\<lfloor>log 2 \<bar>x\<bar>\<rfloor> = e"
    using assms(2,3) by (simp add: floor_log_eq_powr_iff)
  thus ?thesis using assms(4) by (simp add: ulp_def)
qed

lemma fl_ge1:
  assumes "2 ^ k \<le> \<bar>x\<bar>" "\<bar>x\<bar> < 2 ^ (k + 1)" "k \<le> 52"
  shows "fl x = of_int (roundEven (x * 2 ^ (52 - k))) / 2 ^ (52 - k)"
proof -
  have p: "(0::real) < 2 ^ k" by simp
  have nz: "x \<noteq> 0"
  proof
    assume "x = 0"
    with assms(1) have "(2::real) ^ k \<le> 0" by simp
    with p show False by linarith
  qed
  have a: "2 powr (of_int (int k)) \<le> \<bar>x\<bar>"
    using assms(1) by (simp add: powr_realpow)
  have "(2::real) powr (of_int (int k) + 1) = 2 ^ (k + 1)"
    using powr_realpow [of 2 "k + 1"] by (simp add: add.commute)
  hence b: "\<bar>x\<bar> < 2 powr (of_int (int k) + 1)" using assms(2) by simp
  have "ulp x = 2 powr (of_int (int k) - 52)"
    using ulp_eq [OF nz a b] by simp
  also have "of_int (int k) - (52::real) = - real (52 - k)"
    using assms(3) by simp
  also have "(2::real) powr (- real (52 - k)) = 1 / 2 ^ (52 - k)"
    by (simp add: powr_minus powr_realpow divide_simps)
  finally have u: "ulp x = 1 / 2 ^ (52 - k)" .
  show ?thesis using nz by (simp add: fl_def u)
qed

lemma fl_lt1:
  assumes "1 / 2 ^ k \<le> \<bar>x\<bar>" "\<bar>x\<bar> < 2 / 2 ^ k" "k \<le> 1022"
  shows "fl x = of_int (roundEven (x * 2 ^ (52 + k))) / 2 ^ (52 + k)"
proof -
  have nz: "x \<noteq> 0" using assms(1) by (auto simp: divide_simps)
  have p: "(2::real) powr (of_int (- int k)) = 1 / 2 ^ k"
    by (simp add: powr_minus powr_realpow divide_simps)
  have a: "2 powr (of_int (- int k)) \<le> \<bar>x\<bar>"
    using assms(1) p by simp
  have "(2::real) powr (of_int (- int k) + 1) = 2 powr (of_int (- int k)) * 2 powr 1"
    by (rule powr_add)
  hence b: "\<bar>x\<bar> < 2 powr (of_int (- int k) + 1)" using assms(2) p by simp
  have "ulp x = 2 powr (of_int (- int k) - 52)"
    using ulp_eq [OF nz a b] assms(3) by simp
  also have "of_int (- int k) - (52::real) = - real (52 + k)"
    by simp
  also have "(2::real) powr (- real (52 + k)) = 1 / 2 ^ (52 + k)"
    by (simp only: powr_minus powr_realpow [OF zero_less_numeral] inverse_eq_divide)
  finally have u: "ulp x = 1 / 2 ^ (52 + k)" .
  show ?thesis using nz by (simp add: fl_def u)
qed

lemma fl_int:
  assumes "x \<in> \<int>" "\<bar>x\<bar> < 2 ^ 53"
  shows "fl x = x"
proof (cases "x = 0")
  case True thus ?thesis by (simp add: fl_zero)
next
  case False
  obtain n :: int where n: "x = of_int n" using assms(1) by (auto elim: Ints_cases)
  have n0: "n \<noteq> 0" using False n by simp
  hence one: "1 \<le> \<bar>x\<bar>" using n by (simp flip: of_int_abs)
  define e where "e = \<lfloor>log 2 \<bar>x\<bar>\<rfloor>"
  have pos: "0 < \<bar>x\<bar>" using False by simp
  have bounds: "2 powr (of_int e) \<le> \<bar>x\<bar> \<and> \<bar>x\<bar> < 2 powr (of_int e + 1)"
    using floor_log_eq_powr_iff [of "\<bar>x\<bar>" 2 e] pos e_def by simp
  have "(2::real) powr 0 < 2 powr (of_int e + 1)" using one bounds by simp
  hence "(0::real) < of_int e + 1" using powr_less_cancel_iff [of 2 0 "of_int e + 1"] by linarith
  hence e0: "0 \<le> e" by linarith
  have "(2::real) powr (of_int e) < 2 powr 53" using assms(2) bounds by simp
  hence "real_of_int e < 53" using powr_less_cancel_iff [of 2 "of_int e" 53] by linarith
  hence e52: "e \<le> 52" by linarith
  define k where "k = nat e"
  have k: "e = int k" "k \<le> 52" using e0 e52 by (simp_all add: k_def)
  note bounds
  hence "2 ^ k \<le> \<bar>x\<bar>" "\<bar>x\<bar> < 2 ^ (k + 1)"
    using k powr_realpow [of 2 k] powr_realpow [of 2 "k + 1"] by (simp_all add: add.commute)
  hence "fl x = of_int (roundEven (x * 2 ^ (52 - k))) / 2 ^ (52 - k)"
    using k(2) by (rule fl_ge1)
  also have "x * 2 ^ (52 - k) = of_int (n * 2 ^ (52 - k))" using n by simp
  also have "of_int (roundEven (of_int (n * 2 ^ (52 - k)))) / (2::real) ^ (52 - k) = x"
    unfolding roundEven_of_int using n by simp
  finally show ?thesis .
qed

lemma fl_7_10: "fl (7 / 10) = 3152519739159347 / 4503599627370496"
  using fl_lt1 [of 1 "7 / 10"] by (simp add: roundEven_def)

lemma fl_40: "fl (40 * fl (7 / 10)) = 28"
  using fl_ge1 [of 4 "40 * (3152519739159347 / 4503599627370496)"] by (simp add: fl_7_10 roundEven_def)

lemma fl_90: "\<lfloor>fl (90 * fl (7 / 10))\<rfloor> = 62"
proof -
  have v: "fl (90 * (3152519739159347 / 4503599627370496)) = 8866461766385663 / 140737488355328"
    using fl_ge1 [of 5 "90 * (3152519739159347 / 4503599627370496)"] by (simp add: roundEven_def)
  show ?thesis unfolding fl_7_10 v by simp
qed

text \<open>Along an axis of the grid, between integer pixels, \<open>distance\<close> is exact.\<close>

lemma fl_square:
  assumes "d \<in> \<int>" "\<bar>d\<bar> < 2 ^ 26"
  shows "fl (d * d) = d * d"
proof -
  have "\<bar>d\<bar> * \<bar>d\<bar> < 2 ^ 26 * 2 ^ 26"
    using assms(2) by (intro mult_strict_mono) simp_all
  hence "\<bar>d * d\<bar> < 2 ^ 53" by (simp add: abs_mult)
  moreover have "d * d \<in> \<int>" using assms(1) by simp
  ultimately show ?thesis by (rule fl_int [rotated])
qed

lemma distance_axis:
  assumes "d \<in> \<int>" "\<bar>d\<bar> < 2 ^ 26"
  shows "fsqrt (fadd (fmul d d) (fmul 0 0)) = \<bar>d\<bar>"
    and "fsqrt (fadd (fmul 0 0) (fmul d d)) = \<bar>d\<bar>"
proof -
  have a: "\<bar>d\<bar> \<in> \<int>" "\<bar>\<bar>d\<bar>\<bar> < 2 ^ 53" using assms by simp_all
  have "fl \<bar>d\<bar> = \<bar>d\<bar>" using a by (rule fl_int)
  thus "fsqrt (fadd (fmul d d) (fmul 0 0)) = \<bar>d\<bar>"
    and "fsqrt (fadd (fmul 0 0) (fmul d d)) = \<bar>d\<bar>"
    by (simp_all add: fsqrt_def fadd_def fmul_def fl_zero fl_square [OF assms])
qed

lemma distance_horizontal:
  assumes "x2 - x1 \<in> \<int>" "\<bar>x2 - x1\<bar> < 2 ^ 26"
  shows "distance x1 y x2 y = \<bar>x2 - x1\<bar>"
proof -
  have "fl (x2 - x1) = x2 - x1" using assms by (intro fl_int) simp_all
  thus ?thesis by (simp add: distance_def fsub_def fl_zero distance_axis [OF assms])
qed

lemma distance_vertical:
  assumes "y2 - y1 \<in> \<int>" "\<bar>y2 - y1\<bar> < 2 ^ 26"
  shows "distance x y1 x y2 = \<bar>y2 - y1\<bar>"
proof -
  have "fl (y2 - y1) = y2 - y1" using assms by (intro fl_int) simp_all
  thus ?thesis by (simp add: distance_def fsub_def fl_zero distance_axis [OF assms])
qed

lemma calculatePathLength_value: "calculatePathLength = 1340"
  by (simp add: calculatePathLength_def PATH_COORDINATES_def distance_horizontal distance_vertical
      fadd_def fl_int)

section \<open>Facts about the enemy\<close>

lemma updatePositionFromPath_fields:
  "pathProgress (updatePositionFromPath e) = pathProgress e"
  "speed (updatePositionFromPath e) = speed e"
  "pathSpeed (updatePositionFromPath e) = pathSpeed e"
  "alive (updatePositionFromPath e) = alive e"
  "reachedEnd (updatePositionFromPath e) = reachedEnd e"
  "health (updatePositionFromPath e) = health e"
  by (simp_all add: updatePositionFromPath_def Let_def)

lemma checkEndReached_fields:
  "pathProgress (checkEndReached e) = pathProgress e"
  "speed (checkEndReached e) = speed e"
  "pathSpeed (checkEndReached e) = pathSpeed e"
  by (simp_all add: checkEndReached_def)

lemma updateVisualEffects_fields:
  "pathProgress (updateVisualEffects e dt) = pathProgress e"
  "speed (updateVisualEffects e dt) = speed e"
  "pathSpeed (updateVisualEffects e dt) = pathSpeed e"
  "alive (updateVisualEffects e dt) = alive e"
  "reachedEnd (updateVisualEffects e dt) = reachedEnd e"
  by (simp_all add: updateVisualEffects_def Let_def)

lemma move_speeds:
  "speed (move e dt) = speed e"
  "pathSpeed (move e dt) = pathSpeed e"
  by (simp_all add: move_def Let_def updatePositionFromPath_fields)

lemma move_pathProgress:
  "pathProgress (move e dt) =
     (if \<not> alive e \<or> reachedEnd e then pathProgress e
      else clamp (pathProgress e + speed e * pathSpeed e * dt / 1000 / calculatePathLength) 0 1)"
  by (simp add: move_def Let_def updatePositionFromPath_fields)

lemma update_pathProgress:
  "pathProgress (update e dt) =
     (if \<not> alive e \<or> reachedEnd e then pathProgress e
      else clamp (pathProgress e + speed e * pathSpeed e * dt / 1000 / calculatePathLength) 0 1)"
  by (simp add: update_def checkEndReached_fields move_pathProgress updateVisualEffects_fields)

lemma update_speeds:
  "speed (update e dt) = speed e"
  "pathSpeed (update e dt) = pathSpeed e"
  by (simp_all add: update_def checkEndReached_fields move_speeds updateVisualEffects_fields)

lemma update_step:
  assumes "0 \<le> speed e" "0 \<le> pathSpeed e" "0 \<le> pathProgress e" "pathProgress e \<le> 1"
    and "0 \<le> dt"
  shows "pathProgress e \<le> pathProgress (update e dt) \<and> pathProgress (update e dt) \<le> 1"
proof -
  have "0 \<le> speed e * pathSpeed e * dt / 1000 / calculatePathLength"
    using assms by (simp add: calculatePathLength_value)
  then show ?thesis
    using assms(3,4) by (simp add: update_pathProgress clamp_def)
qed

lemma updateTrace_bounds:
  assumes "0 \<le> speed e" "0 \<le> pathSpeed e" "0 \<le> pathProgress e" "pathProgress e \<le> 1"
    and "\<forall>dt \<in> set dts. 0 \<le> dt"
  shows "\<forall>e' \<in> set (updateTrace e dts).
           pathProgress e \<le> pathProgress e' \<and> pathProgress e' \<le> 1"
  using assms
proof (induction dts arbitrary: e)
  case Nil
  then show ?case by simp
next
  case (Cons dt dts)
  have dt: "0 \<le> dt" using Cons.prems(5) by simp
  note st = update_step [OF Cons.prems(1-4) dt]
  have "\<forall>e' \<in> set (updateTrace (update e dt) dts).
          pathProgress (update e dt) \<le> pathProgress e' \<and> pathProgress e' \<le> 1"
    using Cons.IH [of "update e dt"] st Cons.prems by (simp add: update_speeds)
  then show ?case using st Cons.prems(4) by fastforce
qed

lemma updateTrace_sorted:
  assumes "0 \<le> speed e" "0 \<le> pathSpeed e" "0 \<le> pathProgress e" "pathProgress e \<le> 1"
    and "\<forall>dt \<in> set dts. 0 \<le> dt"
  shows "sorted (map pathProgress (updateTrace e dts))"
  using assms
proof (induction dts arbitrary: e)
  case Nil
  then show ?case by simp
next
  case (Cons dt dts)
  have dt: "0 \<le> dt" using Cons.prems(5) by simp
  note st = update_step [OF Cons.prems(1-4) dt]
  have tail: "sorted (map pathProgress (updateTrace (update e dt) dts))"
    using Cons.IH [of "update e dt"] st Cons.prems by (simp add: update_speeds)
  have "\<forall>e' \<in> set (updateTrace (update e dt) dts).
          pathProgress (update e dt) \<le> pathProgress e'"
    using updateTrace_bounds [of "update e dt" dts] st Cons.prems by (simp add: update_speeds)
  then have "\<forall>e' \<in> set (updateTrace (update e dt) dts). pathProgress e \<le> pathProgress e'"
    using st by fastforce
  then show ?case using tail by simp
qed

lemma takeDamage_health_nonneg: "0 \<le> health e \<Longrightarrow> 0 \<le> health (fst (takeDamage e d))"
  by (simp add: takeDamage_def Let_def)

lemma damageAll_health_nonneg: "0 \<le> health e \<Longrightarrow> 0 \<le> health (damageAll e ds)"
  by (induction ds arbitrary: e) (simp_all add: takeDamage_health_nonneg)

lemma damageTrace_health_nonneg:
  "0 \<le> health e \<Longrightarrow> \<forall>r \<in> set (damageTrace e ds). 0 \<le> health (fst r)"
proof (induction ds arbitrary: e)
  case Nil
  then show ?case by simp
next
  case (Cons d ds)
  have "0 \<le> health (fst (takeDamage e d))"
    using Cons.prems by (rule takeDamage_health_nonneg)
  then show ?case using Cons.IH [of "fst (takeDamage e d)"] by simp
qed

lemma damageAll_dead: "\<not> alive e \<Longrightarrow> damageAll e ds = e"
  by (induction ds arbitrary: e) (simp_all add: takeDamage_def)

lemma damageTrace_dead: "\<not> alive e \<Longrightarrow> filter snd (damageTrace e ds) = []"
  by (induction ds arbitrary: e) (simp_all add: takeDamage_def)

lemma damageTrace_deaths:
  "length (filter snd (damageTrace e ds)) =
     (if alive e \<and> \<not> alive (damageAll e ds) then 1 else 0)"
proof (induction ds arbitrary: e)
  case Nil
  then show ?case by simp
next
  case (Cons d ds)
  show ?case
  proof (cases "alive e")
    case False
    then show ?thesis using damageTrace_dead [of e "d # ds"] by simp
  next
    case True
    note live = this
    show ?thesis
    proof (cases "health e - d \<le> 0")
      case True
      with live have k: "snd (takeDamage e d)" "\<not> alive (fst (takeDamage e d))"
        by (simp_all add: takeDamage_def Let_def)
      then show ?thesis
        using live damageTrace_dead [OF k(2), of ds] damageAll_dead [OF k(2), of ds] by simp
    next
      case False
      with live have k: "\<not> snd (takeDamage e d)" "alive (fst (takeDamage e d))"
        by (simp_all add: takeDamage_def Let_def)
      then show ?thesis using live Cons.IH [of "fst (takeDamage e d)"] by simp
    qed
  qed
qed

lemma Enemy_fields:
  "health (Enemy ty) = cfg_health (ENEMY_TYPES ty)"
  "alive (Enemy ty)"
  "\<not> reachedEnd (Enemy ty)"
  "pathProgress (Enemy ty) = 0"
  "speed (Enemy ty) = cfg_speed (ENEMY_TYPES ty)"
  "pathSpeed (Enemy ty) = cfg_pathSpeed (ENEMY_TYPES ty)"
  by (simp_all add: Enemy_def updatePositionFromPath_def Let_def)

section \<open>Claims about the enemy\<close>

text \<open>
  C3.  For every enemy and every damage amount, \<open>takeDamage\<close> changes nothing and
  returns false when the enemy is not alive.  Otherwise it subtracts the amount from the
  health, clamps the health at 0, clears \<open>alive\<close> when the health reaches 0, and returns
  true precisely when this call caused the death.  Hence over any sequence of calls the
  health never goes below 0, a dead enemy stays dead, and the number of calls that take
  the enemy from alive to dead is one when it starts alive and ends dead, and zero
  otherwise.
\<close>

theorem takeDamage_clamps_and_kills_once:
  "(\<not> alive e \<longrightarrow> takeDamage e d = (e, False)) \<and>
   (alive e \<longrightarrow>
      health (fst (takeDamage e d)) = max 0 (health e - d) \<and>
      alive (fst (takeDamage e d)) = (0 < health e - d)) \<and>
   snd (takeDamage e d) = (alive e \<and> \<not> alive (fst (takeDamage e d))) \<and>
   (0 \<le> health e \<longrightarrow>
      0 \<le> health (damageAll e ds) \<and> (\<forall>r \<in> set (damageTrace e ds). 0 \<le> health (fst r))) \<and>
   (\<not> alive e \<longrightarrow> \<not> alive (damageAll e ds)) \<and>
   length (filter snd (damageTrace e ds)) =
     (if alive e \<and> \<not> alive (damageAll e ds) then 1 else 0)"
proof -
  have a: "\<not> alive e \<longrightarrow> takeDamage e d = (e, False)"
    by (simp add: takeDamage_def)
  have b: "alive e \<longrightarrow>
      health (fst (takeDamage e d)) = max 0 (health e - d) \<and>
      alive (fst (takeDamage e d)) = (0 < health e - d)"
    by (auto simp add: takeDamage_def Let_def)
  have c: "snd (takeDamage e d) = (alive e \<and> \<not> alive (fst (takeDamage e d)))"
    by (simp add: takeDamage_def Let_def)
  have d: "0 \<le> health e \<longrightarrow>
      0 \<le> health (damageAll e ds) \<and> (\<forall>r \<in> set (damageTrace e ds). 0 \<le> health (fst r))"
    using damageAll_health_nonneg [of e ds] damageTrace_health_nonneg [of e ds] by blast
  have e: "\<not> alive e \<longrightarrow> \<not> alive (damageAll e ds)"
    by (simp add: damageAll_dead)
  show ?thesis
    using a b c d e damageTrace_deaths [of e ds] by blast
qed

theorem takeDamage_clamps_and_kills_once_witness:
  "alive (Enemy BASIC) \<and> 0 \<le> health (Enemy BASIC) \<and>
   health (fst (takeDamage (Enemy BASIC) 50)) = 50 \<and>
   set (map (health \<circ> fst) (damageTrace (Enemy BASIC) [50, 100, 10])) = {50, 0} \<and>
   map snd (damageTrace (Enemy BASIC) [50, 100, 10]) = [False, True, False] \<and>
   \<not> alive (damageAll (Enemy BASIC) [50, 100, 10]) \<and>
   takeDamage (damageAll (Enemy BASIC) [50, 100, 10]) 10 =
     (damageAll (Enemy BASIC) [50, 100, 10], False)"
  using takeDamage_clamps_and_kills_once [of "Enemy BASIC" 50 "[50, 100, 10]"]
    takeDamage_clamps_and_kills_once [of "damageAll (Enemy BASIC) [50, 100, 10]" 10 "[]"]
  by (simp add: Enemy_fields takeDamage_def Let_def)

text \<open>
  C6.  For every sequence of \<open>update\<close> ticks with non-negative elapsed times, the path
  progress of an enemy with non-negative speed factors that starts within \<open>[0, 1]\<close> never
  decreases from one state to the next and stays within \<open>[0, 1]\<close>; \<open>move\<close> and \<open>update\<close>
  change nothing when the enemy is not alive or has reached the end.
\<close>

theorem pathProgress_monotone_and_bounded:
  assumes "0 \<le> speed e" and "0 \<le> pathSpeed e"
    and "0 \<le> pathProgress e" and "pathProgress e \<le> 1"
    and "\<forall>dt \<in> set dts. 0 \<le> dt"
  shows "sorted (map pathProgress (updateTrace e dts)) \<and>
         (\<forall>e' \<in> set (updateTrace e dts). 0 \<le> pathProgress e' \<and> pathProgress e' \<le> 1) \<and>
         (\<not> alive e \<or> reachedEnd e \<longrightarrow> move e dt = e \<and> update e dt = e)"
proof -
  have "\<forall>e' \<in> set (updateTrace e dts). 0 \<le> pathProgress e' \<and> pathProgress e' \<le> 1"
    using updateTrace_bounds [OF assms] assms(3) by fastforce
  moreover have "\<not> alive e \<or> reachedEnd e \<longrightarrow> move e dt = e \<and> update e dt = e"
    by (simp add: move_def update_def)
  ultimately show ?thesis
    using updateTrace_sorted [OF assms] by blast
qed

theorem pathProgress_monotone_and_bounded_witness:
  "0 \<le> speed (Enemy FAST) \<and> 0 \<le> pathSpeed (Enemy FAST) \<and>
   0 \<le> pathProgress (Enemy FAST) \<and> pathProgress (Enemy FAST) \<le> 1 \<and>
   (0::real) \<le> 16 \<and> (0::real) \<le> 30000 \<and>
   sorted (map pathProgress (updateTrace (Enemy FAST) [16, 30000])) \<and>
   0 \<le> pathProgress (update (update (Enemy FAST) 16) 30000) \<and>
   pathProgress (update (update (Enemy FAST) 16) 30000) \<le> 1 \<and>
   \<not> alive (fst (takeDamage (Enemy FAST) 60)) \<and>
   move (fst (takeDamage (Enemy FAST) 60)) 16 = fst (takeDamage (Enemy FAST) 60)"
proof -
  have h: "0 \<le> speed (Enemy FAST)" "0 \<le> pathSpeed (Enemy FAST)"
    "0 \<le> pathProgress (Enemy FAST)" "pathProgress (Enemy FAST) \<le> 1"
    "\<forall>dt \<in> set [16, 30000 :: real]. 0 \<le> dt"
    by (simp_all add: Enemy_fields)
  have dead: "\<not> alive (fst (takeDamage (Enemy FAST) 60))"
    by (simp add: takeDamage_def Enemy_fields Let_def)
  have k: "0 \<le> speed (fst (takeDamage (Enemy FAST) 60))"
    "0 \<le> pathSpeed (fst (takeDamage (Enemy FAST) 60))"
    "0 \<le> pathProgress (fst (takeDamage (Enemy FAST) 60))"
    "pathProgress (fst (takeDamage (Enemy FAST) 60)) \<le> 1"
    by (simp_all add: takeDamage_def Enemy_fields Let_def)
  have m: "update (update (Enemy FAST) 16) 30000 \<in> set (updateTrace (Enemy FAST) [16, 30000])"
    by simp
  show ?thesis
    using h(1-4) dead m pathProgress_monotone_and_bounded [OF h, of 16]
      pathProgress_monotone_and_bounded [OF k h(5), of 16]
    by fastforce
qed

section \<open>Facts about the wave manager\<close>

lemma isPaused_out:
  "waveData_update f (isPaused_update g wm) = isPaused_update g (waveData_update f wm)"
  "totalWaves_update f1 (isPaused_update g wm) = isPaused_update g (totalWaves_update f1 wm)"
  "currentWave_update f1 (isPaused_update g wm) = isPaused_update g (currentWave_update f1 wm)"
  "waveInProgress_update f2 (isPaused_update g wm) = isPaused_update g (waveInProgress_update f2 wm)"
  "waveComplete_update f2 (isPaused_update g wm) = isPaused_update g (waveComplete_update f2 wm)"
  "allWavesComplete_update f2 (isPaused_update g wm) = isPaused_update g (allWavesComplete_update f2 wm)"
  "enemiesSpawned_update f1 (isPaused_update g wm) = isPaused_update g (enemiesSpawned_update f1 wm)"
  "enemiesToSpawn_update f1 (isPaused_update g wm) = isPaused_update g (enemiesToSpawn_update f1 wm)"
  "spawnQueue_update f3 (isPaused_update g wm) = isPaused_update g (spawnQueue_update f3 wm)"
  "lastSpawnTime_w_update f4 (isPaused_update g wm) = isPaused_update g (lastSpawnTime_w_update f4 wm)"
  "nextSpawnTime_update f4 (isPaused_update g wm) = isPaused_update g (nextSpawnTime_update f4 wm)"
  "waveStartTime_update f4 (isPaused_update g wm) = isPaused_update g (waveStartTime_update f4 wm)"
  "timeBetweenWaves_update f4 (isPaused_update g wm) = isPaused_update g (timeBetweenWaves_update f4 wm)"
  "waveCountdown_update f4 (isPaused_update g wm) = isPaused_update g (waveCountdown_update f4 wm)"
  "isCountingDown_update f2 (isPaused_update g wm) = isPaused_update g (isCountingDown_update f2 wm)"
  "stats_update f5 (isPaused_update g wm) = isPaused_update g (stats_update f5 wm)"
  "enemies_update f6 (isPaused_update g wm) = isPaused_update g (enemies_update f6 wm)"
  "onEnemySpawn_update f7 (isPaused_update g wm) = isPaused_update g (onEnemySpawn_update f7 wm)"
  by (cases wm, simp)+

lemma shuffleSpawnQueue_isPaused:
  "shuffleSpawnQueue rnd (wm \<lparr> isPaused := v \<rparr>) = (shuffleSpawnQueue rnd wm) \<lparr> isPaused := v \<rparr>"
  by (simp add: shuffleSpawnQueue_def Let_def isPaused_out)

lemma prepareSpawnQueue_isPaused:
  "prepareSpawnQueue rnd wd (wm \<lparr> isPaused := v \<rparr>) =
     (prepareSpawnQueue rnd wd wm) \<lparr> isPaused := v \<rparr>"
  by (simp add: prepareSpawnQueue_def Let_def isPaused_out shuffleSpawnQueue_isPaused
      shouldShuffleSpawnOrder_def)

lemma getNextSpawnDelay_isPaused:
  "getNextSpawnDelay (wm \<lparr> isPaused := v \<rparr>) = getNextSpawnDelay wm"
  by (simp add: getNextSpawnDelay_def Let_def)

lemma initializeWave_isPaused:
  "initializeWave now rnd (wm \<lparr> isPaused := v \<rparr>) = (initializeWave now rnd wm) \<lparr> isPaused := v \<rparr>"
  by (simp add: initializeWave_def getCurrentWaveData_def Let_def isPaused_out
      prepareSpawnQueue_isPaused getNextSpawnDelay_isPaused)

lemma completeAllWaves_isPaused:
  "completeAllWaves (wm \<lparr> isPaused := v \<rparr>) = (completeAllWaves wm) \<lparr> isPaused := v \<rparr>"
  by (simp add: completeAllWaves_def isPaused_out)

lemma startNextWave_isPaused:
  "startNextWave manual now rnd (wm \<lparr> isPaused := v \<rparr>) =
     (fst (startNextWave manual now rnd wm) \<lparr> isPaused := v \<rparr>,
      snd (startNextWave manual now rnd wm))"
  by (simp add: startNextWave_def Let_def isPaused_out completeAllWaves_isPaused
      initializeWave_isPaused)

lemma updateCountdown_isPaused:
  "updateCountdown dt now rnd (wm \<lparr> isPaused := v \<rparr>) =
     (updateCountdown dt now rnd wm) \<lparr> isPaused := v \<rparr>"
  by (simp add: updateCountdown_def Let_def isPaused_out startNextWave_isPaused)

lemma spawnNextEnemy_isPaused:
  "spawnNextEnemy now (wm \<lparr> isPaused := v \<rparr>) = (spawnNextEnemy now wm) \<lparr> isPaused := v \<rparr>"
  by (simp add: spawnNextEnemy_def Let_def isPaused_out getNextSpawnDelay_isPaused
      split: option.split)

lemma processEnemySpawning_isPaused:
  "processEnemySpawning now (wm \<lparr> isPaused := v \<rparr>) =
     (processEnemySpawning now wm) \<lparr> isPaused := v \<rparr>"
  by (simp add: processEnemySpawning_def Let_def spawnNextEnemy_isPaused)

lemma updateWaveStats_isPaused:
  "updateWaveStats w (wm \<lparr> isPaused := v \<rparr>) = (updateWaveStats w wm) \<lparr> isPaused := v \<rparr>"
  by (simp add: updateWaveStats_def Let_def isPaused_out)

lemma startWaveCountdown_isPaused:
  "startWaveCountdown (wm \<lparr> isPaused := v \<rparr>) = (startWaveCountdown wm) \<lparr> isPaused := v \<rparr>"
  by (simp add: startWaveCountdown_def isPaused_out)

lemma updateWaveStats_fields:
  "currentWave (updateWaveStats w wm) = currentWave wm"
  "totalWaves (updateWaveStats w wm) = totalWaves wm"
  by (simp_all add: updateWaveStats_def Let_def)

lemma completeCurrentWave_isPaused:
  "completeCurrentWave now (wm \<lparr> isPaused := v \<rparr>) =
     (completeCurrentWave now wm) \<lparr> isPaused := v \<rparr>"
  by (simp add: completeCurrentWave_def Let_def isPaused_out updateWaveStats_isPaused
      startWaveCountdown_isPaused updateWaveStats_fields)

lemma checkWaveCompletion_isPaused:
  "checkWaveCompletion now (wm \<lparr> isPaused := v \<rparr>) =
     (checkWaveCompletion now wm) \<lparr> isPaused := v \<rparr>"
  by (auto simp add: checkWaveCompletion_def Let_def completeCurrentWave_isPaused)

lemma checkAllWavesComplete_isPaused:
  "checkAllWavesComplete (wm \<lparr> isPaused := v \<rparr>) = (checkAllWavesComplete wm) \<lparr> isPaused := v \<rparr>"
  by (simp add: checkAllWavesComplete_def completeAllWaves_isPaused)

lemma update_w_isPaused:
  "update_w dt es now rnd (wm \<lparr> isPaused := v \<rparr>) =
     (update_w dt es now rnd wm) \<lparr> isPaused := v \<rparr>"
proof -
  let ?w1 = "wm \<lparr> enemies := es \<rparr>"
  let ?w2 = "if isCountingDown ?w1 then updateCountdown dt now rnd ?w1 else ?w1"
  let ?w3 = "if waveInProgress ?w2
             then checkWaveCompletion now (processEnemySpawning now ?w2) else ?w2"
  have 1: "wm \<lparr> isPaused := v \<rparr> \<lparr> enemies := es \<rparr> = ?w1 \<lparr> isPaused := v \<rparr>"
    by (simp add: isPaused_out)
  have 2: "(if isCountingDown (?w1 \<lparr> isPaused := v \<rparr>)
            then updateCountdown dt now rnd (?w1 \<lparr> isPaused := v \<rparr>)
            else ?w1 \<lparr> isPaused := v \<rparr>) = ?w2 \<lparr> isPaused := v \<rparr>"
    by (simp add: updateCountdown_isPaused)
  have 3: "(if waveInProgress (?w2 \<lparr> isPaused := v \<rparr>)
            then checkWaveCompletion now (processEnemySpawning now (?w2 \<lparr> isPaused := v \<rparr>))
            else ?w2 \<lparr> isPaused := v \<rparr>) = ?w3 \<lparr> isPaused := v \<rparr>"
    by (simp add: processEnemySpawning_isPaused checkWaveCompletion_isPaused)
  show ?thesis
    unfolding update_w_def Let_def 1 2 3 checkAllWavesComplete_isPaused ..
qed

lemma updates_w_isPaused:
  "updates_w ticks (wm \<lparr> isPaused := v \<rparr>) = (updates_w ticks wm) \<lparr> isPaused := v \<rparr>"
proof (induction ticks arbitrary: wm)
  case Nil
  then show ?case by simp
next
  case (Cons tick ticks)
  obtain dt es now rnd where t: "tick = (dt, es, now, rnd)" by (cases tick) auto
  show ?case unfolding t updates_w.simps update_w_isPaused Cons.IH ..
qed

lemma pushGroup_length: "length (fst (pushGroup g k acc)) = length (fst acc) + k"
  by (induction g k acc rule: pushGroup.induct) simp_all

lemma pushGroup_count: "snd (pushGroup g k acc) = snd acc + k"
  by (induction g k acc rule: pushGroup.induct) simp_all

lemma foldl_pushGroup_length:
  "length (fst (foldl (\<lambda>acc g. pushGroup g (g_count g) acc) acc gs)) =
     length (fst acc) + sum_list (map g_count gs)"
  by (induction gs arbitrary: acc) (simp_all add: pushGroup_length)

lemma foldl_pushGroup_count:
  "snd (foldl (\<lambda>acc g. pushGroup g (g_count g) acc) acc gs) =
     snd acc + sum_list (map g_count gs)"
  by (induction gs arbitrary: acc) (simp_all add: pushGroup_count)

lemma pushGroups_size:
  "length (fst (pushGroups gs)) = sum_list (map g_count gs)"
  "snd (pushGroups gs) = sum_list (map g_count gs)"
  by (simp_all add: pushGroups_def foldl_pushGroup_length foldl_pushGroup_count)

lemma shuffleLoop_length: "length (shuffleLoop rnd i q) = length q"
  by (induction rnd i q rule: shuffleLoop.induct) (simp_all add: Let_def)

lemma prepareSpawnQueue_size:
  "length (spawnQueue (prepareSpawnQueue rnd wd wm)) = sum_list (map g_count (wd_enemies wd))"
  "enemiesToSpawn (prepareSpawnQueue rnd wd wm) = sum_list (map g_count (wd_enemies wd))"
  by (simp_all add: prepareSpawnQueue_def shuffleSpawnQueue_def Let_def pushGroups_size
      shuffleLoop_length)

lemma prepareSpawnQueue_fields:
  "waveComplete (prepareSpawnQueue rnd wd wm) = waveComplete wm"
  "waveInProgress (prepareSpawnQueue rnd wd wm) = waveInProgress wm"
  "isCountingDown (prepareSpawnQueue rnd wd wm) = isCountingDown wm"
  "waveCountdown (prepareSpawnQueue rnd wd wm) = waveCountdown wm"
  "enemies (prepareSpawnQueue rnd wd wm) = enemies wm"
  "stats (prepareSpawnQueue rnd wd wm) = stats wm"
  "currentWave (prepareSpawnQueue rnd wd wm) = currentWave wm"
  "totalWaves (prepareSpawnQueue rnd wd wm) = totalWaves wm"
  "waveStartTime (prepareSpawnQueue rnd wd wm) = waveStartTime wm"
  "allWavesComplete (prepareSpawnQueue rnd wd wm) = allWavesComplete wm"
  "waveData (prepareSpawnQueue rnd wd wm) = waveData wm"
  "onEnemySpawn (prepareSpawnQueue rnd wd wm) = onEnemySpawn wm"
  by (simp_all add: prepareSpawnQueue_def shuffleSpawnQueue_def Let_def)

lemma initializeWave_fields:
  "isCountingDown (initializeWave now rnd wm) = isCountingDown wm"
  "waveCountdown (initializeWave now rnd wm) = waveCountdown wm"
  "stats (initializeWave now rnd wm) = stats wm"
  "currentWave (initializeWave now rnd wm) = currentWave wm"
  "totalWaves (initializeWave now rnd wm) = totalWaves wm"
  "allWavesComplete (initializeWave now rnd wm) = allWavesComplete wm"
  "waveData (initializeWave now rnd wm) = waveData wm"
  "enemies (initializeWave now rnd wm) = enemies wm"
  "onEnemySpawn (initializeWave now rnd wm) = onEnemySpawn wm"
  by (simp_all add: initializeWave_def Let_def prepareSpawnQueue_fields split: option.split)

lemma initializeWave_started:
  assumes "getCurrentWaveData wm = Some wd"
  shows "waveInProgress (initializeWave now rnd wm)"
    and "\<not> waveComplete (initializeWave now rnd wm)"
    and "enemiesSpawned (initializeWave now rnd wm) = 0"
    and "waveStartTime (initializeWave now rnd wm) = now"
    and "length (spawnQueue (initializeWave now rnd wm)) = sum_list (map g_count (wd_enemies wd))"
    and "enemiesToSpawn (initializeWave now rnd wm) = sum_list (map g_count (wd_enemies wd))"
  using assms
  by (simp_all add: initializeWave_def Let_def prepareSpawnQueue_fields prepareSpawnQueue_size)

lemma WAVE_DATA_length: "length WAVE_DATA = 10"
  by (simp add: WAVE_DATA_def)

lemma WAVE_DATA_third:
  "WAVE_DATA ! 2 = \<lparr> waveNumber = 3, wd_enemies =
          [\<lparr> g_type = BASIC, g_count = 10, g_spawnInterval = 800 \<rparr>,
           \<lparr> g_type = TANK, g_count = 3, g_spawnInterval = 2000 \<rparr>], wd_reward = 100 \<rparr>"
  by (simp add: WAVE_DATA_def)

lemma firstWaveStarted_facts:
  "stats firstWaveStarted = initialStats"
  "currentWave firstWaveStarted = 0"
  "totalWaves firstWaveStarted = 10"
  "waveStartTime firstWaveStarted = 1000"
  "\<not> waveComplete firstWaveStarted"
  "waveData firstWaveStarted = WAVE_DATA"
  "\<not> allWavesComplete firstWaveStarted"
  by (simp_all add: firstWaveStarted_def startNextWave_def WaveManager_def Let_def
      initializeWave_fields initializeWave_started getCurrentWaveData_def WAVE_DATA_length)

lemma firstWaveDone_facts:
  "averageWaveTime (stats firstWaveDone) = PosInfinity"
  "fastestWave (stats firstWaveDone) = Num 5000"
  "slowestWave (stats firstWaveDone) = Num 5000"
  "totalWavesCompleted (stats firstWaveDone) = 1"
  "currentWave firstWaveDone = 1"
  "totalWaves firstWaveDone = 10"
  "\<not> waveInProgress firstWaveDone"
  "\<not> allWavesComplete firstWaveDone"
  "waveData firstWaveDone = WAVE_DATA"
  by (simp_all add: firstWaveDone_def completeCurrentWave_def updateWaveStats_def
      startWaveCountdown_def Let_def firstWaveStarted_facts initialStats_def)

lemma secondWaveStarted_facts:
  "stats secondWaveStarted = stats firstWaveDone"
  "currentWave secondWaveStarted = 1"
  "totalWaves secondWaveStarted = 10"
  "waveStartTime secondWaveStarted = 14000"
  "\<not> waveComplete secondWaveStarted"
  by (simp_all add: secondWaveStarted_def startNextWave_def Let_def initializeWave_fields
      initializeWave_started getCurrentWaveData_def WAVE_DATA_length firstWaveDone_facts)

lemma secondWaveDone_facts:
  "averageWaveTime (stats secondWaveDone) = NaN"
  "fastestWave (stats secondWaveDone) = Num 3000"
  "slowestWave (stats secondWaveDone) = Num 5000"
  "totalWavesCompleted (stats secondWaveDone) = 2"
  by (simp_all add: secondWaveDone_def completeCurrentWave_def updateWaveStats_def
      startWaveCountdown_def Let_def secondWaveStarted_facts firstWaveDone_facts)

section \<open>Claims about the wave manager\<close>

text \<open>
  C2.  The claim is that after each completed wave \<open>averageWaveTime\<close> is the arithmetic
  mean of the durations of the waves completed so far, \<open>fastestWave\<close> their minimum and
  \<open>slowestWave\<close> their maximum.  \<open>completeCurrentWave\<close> calls \<open>updateWaveStats\<close> before it
  increments \<open>totalWavesCompleted\<close>, so the running-mean formula divides by the number of
  waves completed before this one.  With a first wave of 5000 ms and a second of 3000 ms
  the recorded average is Infinity after the first wave (the mean is 5000) and NaN after
  the second (the mean is 4000); the fastest and slowest times are recorded as claimed.
\<close>

theorem averageWaveTime_is_not_the_mean:
  "averageWaveTime (stats firstWaveDone) = PosInfinity \<and>
   averageWaveTime (stats firstWaveDone) \<noteq> Num 5000 \<and>
   fastestWave (stats firstWaveDone) = Num 5000 \<and>
   slowestWave (stats firstWaveDone) = Num 5000 \<and>
   averageWaveTime (stats secondWaveDone) = NaN \<and>
   averageWaveTime (stats secondWaveDone) \<noteq> Num ((5000 + 3000) / 2) \<and>
   fastestWave (stats secondWaveDone) = Num (min 5000 3000) \<and>
   slowestWave (stats secondWaveDone) = Num (max 5000 3000)"
  by (simp add: firstWaveDone_facts secondWaveDone_facts)

text \<open>
  C8.  Expanding the wave with groups (BASIC, 10, 800 ms) and (TANK, 3, 2000 ms), the third
  wave of the shipped data, gives a spawn queue of exactly 13 entries and
  \<open>enemiesToSpawn = 13\<close>, shuffled or not; initialising the wave leaves it in progress, not
  complete, with nothing spawned.  For a wave in progress with 13 units to spawn,
  \<open>checkWaveCompletion\<close> makes the wave complete (and no longer in progress) exactly when
  all 13 have been spawned and no enemy of the live array is alive, and otherwise changes
  nothing.
\<close>

theorem third_wave_queue_and_completion:
  "length (spawnQueue (prepareSpawnQueue rnd (WAVE_DATA ! 2) wm)) = 13 \<and>
   enemiesToSpawn (prepareSpawnQueue rnd (WAVE_DATA ! 2) wm) = 13 \<and>
   (getCurrentWaveData wm = Some (WAVE_DATA ! 2) \<longrightarrow>
      length (spawnQueue (initializeWave now rnd wm)) = 13 \<and>
      enemiesToSpawn (initializeWave now rnd wm) = 13 \<and>
      enemiesSpawned (initializeWave now rnd wm) = 0 \<and>
      waveInProgress (initializeWave now rnd wm) \<and>
      \<not> waveComplete (initializeWave now rnd wm)) \<and>
   (enemiesToSpawn w = 13 \<and> waveInProgress w \<and> \<not> waveComplete w \<longrightarrow>
      (waveComplete (checkWaveCompletion now w) \<and> \<not> waveInProgress (checkWaveCompletion now w)) =
        (13 \<le> enemiesSpawned w \<and> (\<forall>e \<in> set (enemies w). \<not> isAlive e)) \<and>
      (\<not> (13 \<le> enemiesSpawned w \<and> (\<forall>e \<in> set (enemies w). \<not> isAlive e)) \<longrightarrow>
         checkWaveCompletion now w = w))"
proof -
  have s: "sum_list (map g_count (wd_enemies (WAVE_DATA ! 2))) = 13"
    by (simp add: WAVE_DATA_third)
  have a: "length (spawnQueue (prepareSpawnQueue rnd (WAVE_DATA ! 2) wm)) = 13"
    "enemiesToSpawn (prepareSpawnQueue rnd (WAVE_DATA ! 2) wm) = 13"
    by (simp_all only: prepareSpawnQueue_size s)
  have b: "getCurrentWaveData wm = Some (WAVE_DATA ! 2) \<longrightarrow>
      length (spawnQueue (initializeWave now rnd wm)) = 13 \<and>
      enemiesToSpawn (initializeWave now rnd wm) = 13 \<and>
      enemiesSpawned (initializeWave now rnd wm) = 0 \<and>
      waveInProgress (initializeWave now rnd wm) \<and>
      \<not> waveComplete (initializeWave now rnd wm)"
    using initializeWave_started [of wm "WAVE_DATA ! 2" now rnd] s by simp
  have f: "waveComplete (completeCurrentWave now w) \<and> \<not> waveInProgress (completeCurrentWave now w)"
    if "\<not> waveComplete w"
    using that
    by (simp add: completeCurrentWave_def Let_def startWaveCountdown_def updateWaveStats_def)
  have c: "enemiesToSpawn w = 13 \<and> waveInProgress w \<and> \<not> waveComplete w \<longrightarrow>
      (waveComplete (checkWaveCompletion now w) \<and> \<not> waveInProgress (checkWaveCompletion now w)) =
        (13 \<le> enemiesSpawned w \<and> (\<forall>e \<in> set (enemies w). \<not> isAlive e)) \<and>
      (\<not> (13 \<le> enemiesSpawned w \<and> (\<forall>e \<in> set (enemies w). \<not> isAlive e)) \<longrightarrow>
         checkWaveCompletion now w = w)"
    using f by (auto simp add: checkWaveCompletion_def Let_def list_all_iff)
  show ?thesis using a b c by blast
qed

lemma thirdWaveStarted_data:
  "getCurrentWaveData ((WaveManager WAVE_DATA) \<lparr> currentWave := 2 \<rparr>) = Some (WAVE_DATA ! 2)"
  by (simp add: getCurrentWaveData_def WaveManager_def WAVE_DATA_length)

lemma killed_enemy_not_alive: "\<not> isAlive (fst (takeDamage (Enemy BASIC) 100))"
  by (simp add: isAlive_def takeDamage_def Enemy_fields Let_def)

theorem third_wave_queue_and_completion_witness:
  "getCurrentWaveData ((WaveManager WAVE_DATA) \<lparr> currentWave := 2 \<rparr>) = Some (WAVE_DATA ! 2) \<and>
   length (spawnQueue thirdWaveStarted) = 13 \<and>
   enemiesToSpawn thirdWaveStarted = 13 \<and>
   waveInProgress thirdWaveStarted \<and>
   \<not> waveComplete thirdWaveStarted \<and>
   waveComplete (checkWaveCompletion 30000
     (thirdWaveStarted \<lparr> enemiesSpawned := 13, enemies := [fst (takeDamage (Enemy BASIC) 100)] \<rparr>)) \<and>
   checkWaveCompletion 30000 (thirdWaveStarted \<lparr> enemiesSpawned := 13, enemies := [Enemy BASIC] \<rparr>) =
     thirdWaveStarted \<lparr> enemiesSpawned := 13, enemies := [Enemy BASIC] \<rparr> \<and>
   checkWaveCompletion 30000 (thirdWaveStarted \<lparr> enemiesSpawned := 12, enemies := [] \<rparr>) =
     thirdWaveStarted \<lparr> enemiesSpawned := 12, enemies := [] \<rparr>"
proof -
  let ?wm = "(WaveManager WAVE_DATA) \<lparr> currentWave := 2 \<rparr>"
  note d = thirdWaveStarted_data
  have i: "length (spawnQueue thirdWaveStarted) = 13" "enemiesToSpawn thirdWaveStarted = 13"
    "waveInProgress thirdWaveStarted" "\<not> waveComplete thirdWaveStarted"
    using third_wave_queue_and_completion [of noRandom ?wm 0 thirdWaveStarted] d
    unfolding thirdWaveStarted_def by simp_all
  have alive: "isAlive (Enemy BASIC)" by (simp add: isAlive_def Enemy_fields)
  show ?thesis
    using d i killed_enemy_not_alive alive
      third_wave_queue_and_completion [of noRandom ?wm 30000
        "thirdWaveStarted \<lparr> enemiesSpawned := 13, enemies := [fst (takeDamage (Enemy BASIC) 100)] \<rparr>"]
      third_wave_queue_and_completion [of noRandom ?wm 30000
        "thirdWaveStarted \<lparr> enemiesSpawned := 13, enemies := [Enemy BASIC] \<rparr>"]
      third_wave_queue_and_completion [of noRandom ?wm 30000
        "thirdWaveStarted \<lparr> enemiesSpawned := 12, enemies := [] \<rparr>"]
    by simp
qed

text \<open>
  C10.  \<open>pause()\<close> has no effect on what \<open>update\<close> does: for every manager, enemy array,
  elapsed time, clock and random source, \<open>update\<close> after \<open>pause()\<close> yields the very state
  that \<open>update\<close> without it yields, apart from the flag \<open>isPaused\<close> itself; the same holds
  for every run of further updates.  The flag is set and never read.
\<close>

theorem pause_is_ignored_by_update:
  "update_w deltaTime currentEnemies now rnd (pause wm) =
     (update_w deltaTime currentEnemies now rnd wm) \<lparr> isPaused := Some True \<rparr> \<and>
   updates_w ticks (pause wm) = (updates_w ticks wm) \<lparr> isPaused := Some True \<rparr>"
  unfolding pause_def update_w_isPaused updates_w_isPaused by simp

lemma smallWaveStarted_facts:
  "waveInProgress smallWaveStarted"
  "\<not> waveComplete smallWaveStarted"
  "\<not> isCountingDown smallWaveStarted"
  "enemiesSpawned smallWaveStarted = 0"
  "enemiesToSpawn smallWaveStarted = 2"
  "length (spawnQueue smallWaveStarted) = 2"
  "nextSpawnTime smallWaveStarted = 0"
  "onEnemySpawn smallWaveStarted = Some handleEnemySpawn"
  "\<not> allWavesComplete smallWaveStarted"
  "currentWave smallWaveStarted = 0"
  "totalWaves smallWaveStarted = 1"
  by (simp_all add: smallWaveStarted_def startNextWave_def WaveManager_def Let_def
      initializeWave_def getCurrentWaveData_def prepareSpawnQueue_def pushGroups_def
      shouldShuffleSpawnOrder_def getNextSpawnDelay_def numeral_2_eq_2)

lemma smallWaveStarted_spawns:
  "enemiesSpawned (update_w 16 [] 0 noRandom smallWaveStarted) = 1"
  "length (enemies (update_w 16 [] 0 noRandom smallWaveStarted)) = 1"
  by (simp_all add: update_w_def Let_def smallWaveStarted_facts processEnemySpawning_def
      spawnNextEnemy_def checkWaveCompletion_def checkAllWavesComplete_def isAlive_def Enemy_fields
      handleEnemySpawn_def)

theorem pause_is_ignored_by_update_witness:
  "isPaused (pause smallWaveStarted) = Some True \<and>
   enemiesSpawned (pause smallWaveStarted) = 0 \<and>
   enemiesSpawned (update_w 16 [] 0 noRandom (pause smallWaveStarted)) = 1 \<and>
   length (enemies (update_w 16 [] 0 noRandom (pause smallWaveStarted))) = 1 \<and>
   update_w 16 [] 0 noRandom (pause smallWaveStarted) =
     (update_w 16 [] 0 noRandom smallWaveStarted) \<lparr> isPaused := Some True \<rparr>"
  using pause_is_ignored_by_update [of 16 "[]" 0 noRandom smallWaveStarted "[]"]
  by (simp add: smallWaveStarted_spawns smallWaveStarted_facts pause_def)

text \<open>
  C9.  As claimed, \<open>startNextWave\<close> returns false and changes nothing whenever a wave is in
  progress or all waves are complete.  The claim that every invocation during an active
  countdown cancels it fails for \<open>manual = false\<close>: the source guards the cancellation with
  \<open>manual && this.isCountingDown\<close>.  What holds: an accepted start with \<open>manual = true\<close>
  leaves the countdown flag cleared, and the timer zeroed if a countdown was active; an
  accepted start with \<open>manual = false\<close> leaves flag and timer as they were; and the automatic
  caller \<open>updateCountdown\<close>, once the timer has run out, clears the flag and zeroes the
  timer itself before it starts the wave.
\<close>

theorem startNextWave_rejects_and_manual_start_cancels_countdown:
  "(waveInProgress wm \<or> allWavesComplete wm \<longrightarrow> startNextWave manual now rnd wm = (wm, False)) \<and>
   (\<not> waveInProgress wm \<and> \<not> allWavesComplete wm \<and> currentWave wm < totalWaves wm \<longrightarrow>
      snd (startNextWave manual now rnd wm) \<and>
      (manual \<longrightarrow> \<not> isCountingDown (fst (startNextWave manual now rnd wm)) \<and>
         (isCountingDown wm \<longrightarrow> waveCountdown (fst (startNextWave manual now rnd wm)) = 0)) \<and>
      (\<not> manual \<longrightarrow>
         isCountingDown (fst (startNextWave manual now rnd wm)) = isCountingDown wm \<and>
         waveCountdown (fst (startNextWave manual now rnd wm)) = waveCountdown wm)) \<and>
   (isCountingDown wm \<and> waveCountdown wm - deltaTime \<le> 0 \<longrightarrow>
      \<not> isCountingDown (updateCountdown deltaTime now rnd wm) \<and>
      waveCountdown (updateCountdown deltaTime now rnd wm) = 0)"
proof -
  have a: "waveInProgress wm \<or> allWavesComplete wm \<longrightarrow> startNextWave manual now rnd wm = (wm, False)"
    by (simp add: startNextWave_def)
  have b: "\<not> waveInProgress wm \<and> \<not> allWavesComplete wm \<and> currentWave wm < totalWaves wm \<longrightarrow>
      snd (startNextWave manual now rnd wm) \<and>
      (manual \<longrightarrow> \<not> isCountingDown (fst (startNextWave manual now rnd wm)) \<and>
         (isCountingDown wm \<longrightarrow> waveCountdown (fst (startNextWave manual now rnd wm)) = 0)) \<and>
      (\<not> manual \<longrightarrow>
         isCountingDown (fst (startNextWave manual now rnd wm)) = isCountingDown wm \<and>
         waveCountdown (fst (startNextWave manual now rnd wm)) = waveCountdown wm)"
    by (simp add: startNextWave_def Let_def initializeWave_fields)
  have c: "isCountingDown wm \<and> waveCountdown wm - deltaTime \<le> 0 \<longrightarrow>
      \<not> isCountingDown (updateCountdown deltaTime now rnd wm) \<and>
      waveCountdown (updateCountdown deltaTime now rnd wm) = 0"
    by (simp add: updateCountdown_def startNextWave_def Let_def initializeWave_fields
        completeAllWaves_def)
  show ?thesis using a b c by blast
qed

lemma countdownRunning_facts:
  "\<not> waveInProgress countdownRunning"
  "\<not> allWavesComplete countdownRunning"
  "currentWave countdownRunning < totalWaves countdownRunning"
  "isCountingDown countdownRunning"
  "waveCountdown countdownRunning = 5000"
  by (simp_all add: countdownRunning_def WaveManager_def WAVE_DATA_length)

text \<open>
  The counterexample to C9 as stated: between waves one and two, with the countdown at
  5000 ms, \<open>startNextWave(false)\<close> starts the wave and the countdown stays active at 5000.
\<close>

theorem automatic_start_keeps_countdown:
  "isCountingDown countdownRunning \<and>
   snd (startNextWave False 0 noRandom countdownRunning) \<and>
   waveInProgress (fst (startNextWave False 0 noRandom countdownRunning)) \<and>
   isCountingDown (fst (startNextWave False 0 noRandom countdownRunning)) \<and>
   waveCountdown (fst (startNextWave False 0 noRandom countdownRunning)) = 5000"
  by (simp add: countdownRunning_facts startNextWave_def Let_def initializeWave_fields
      initializeWave_started getCurrentWaveData_def countdownRunning_def WaveManager_def
      WAVE_DATA_length)

theorem startNextWave_rejects_and_manual_start_cancels_countdown_witness:
  "waveInProgress (countdownRunning \<lparr> waveInProgress := True \<rparr>) \<and>
   startNextWave True 0 noRandom (countdownRunning \<lparr> waveInProgress := True \<rparr>) =
     (countdownRunning \<lparr> waveInProgress := True \<rparr>, False) \<and>
   \<not> waveInProgress countdownRunning \<and> \<not> allWavesComplete countdownRunning \<and>
   currentWave countdownRunning < totalWaves countdownRunning \<and>
   isCountingDown countdownRunning \<and>
   snd (startNextWave True 0 noRandom countdownRunning) \<and>
   \<not> isCountingDown (fst (startNextWave True 0 noRandom countdownRunning)) \<and>
   waveCountdown (fst (startNextWave True 0 noRandom countdownRunning)) = 0 \<and>
   isCountingDown (fst (startNextWave False 0 noRandom countdownRunning)) \<and>
   waveCountdown countdownRunning - 6000 \<le> 0 \<and>
   \<not> isCountingDown (updateCountdown 6000 0 noRandom countdownRunning) \<and>
   waveCountdown (updateCountdown 6000 0 noRandom countdownRunning) = 0"
  using
    startNextWave_rejects_and_manual_start_cancels_countdown
      [of "countdownRunning \<lparr> waveInProgress := True \<rparr>" True 0 noRandom 0]
    startNextWave_rejects_and_manual_start_cancels_countdown
      [of countdownRunning True 0 noRandom 6000]
    startNextWave_rejects_and_manual_start_cancels_countdown
      [of countdownRunning False 0 noRandom 6000]
  by (simp add: countdownRunning_facts)

section \<open>Facts and claims about projectiles\<close>

lemma takeDamage_position: "position (fst (takeDamage e d)) = position e"
  by (simp add: takeDamage_def Let_def)

lemma splashLoop_other:
  "a \<notin> set es \<Longrightarrow> splashLoop p sd c es st a = st a"
  by (induction es arbitrary: st) (simp_all add: Let_def)

lemma splashLoop_center: "splashLoop p sd c es st c = st c"
  by (induction es arbitrary: st) (simp_all add: Let_def)

lemma splashLoop_member:
  assumes "distinct es" and "a \<in> set es" and "a \<noteq> c"
  shows "splashLoop p sd c es st a =
     (let dist = impactDistance p (st a);
          finalDamage = real_of_int \<lfloor>fmul sd (fsub 1 (fdiv dist (splashRadius_p p)))\<rfloor>
      in if isAlive (st a) \<and> dist \<le> splashRadius_p p \<and> 0 < finalDamage
         then fst (takeDamage (st a) finalDamage) else st a)"
  using assms
proof (induction es arbitrary: st)
  case Nil
  then show ?case by simp
next
  case (Cons b es)
  show ?case
  proof (cases "a = b")
    case True
    then have "a \<notin> set es" using Cons.prems(1) by simp
    then show ?thesis
      using True Cons.prems(3)
      by (simp add: Let_def splashLoop_other impactDistance_def)
  next
    case False
    then have m: "a \<in> set es" and d: "distinct es" using Cons.prems by simp_all
    have ih: "\<And>st'. splashLoop p sd c es st' a =
      (let dist = impactDistance p (st' a);
           finalDamage = real_of_int \<lfloor>fmul sd (fsub 1 (fdiv dist (splashRadius_p p)))\<rfloor>
       in if isAlive (st' a) \<and> dist \<le> splashRadius_p p \<and> 0 < finalDamage
          then fst (takeDamage (st' a) finalDamage) else st' a)"
      using Cons.IH [OF d m Cons.prems(3)] .
    show ?thesis
      using False by (simp add: Let_def ih)
  qed
qed

text \<open>
  C5.  When a projectile that has not yet hit resolves against a struck enemy, with no
  enemy listed twice in the array, every enemy object ends as follows.  The struck enemy
  has taken the direct damage and nothing else.  Every other enemy of the array that is
  alive and whose distance from the impact point is at most \<open>splashRadius\<close> has taken
  \<open>floor(floor(damage * 0.7) * (1 - distance / splashRadius))\<close> when that is positive,
  provided the splash flag is set and \<open>splashRadius > 0\<close>.  Every other enemy is unchanged.
  The amounts are those of the arithmetic of doubles: \<open>floor(90 * 0.7)\<close> is 62, since
  \<open>90 * 0.7\<close> rounds to the double just below 63.
\<close>

theorem splash_damage_resolution:
  assumes "\<not> hasHit p" and "distinct allEnemies"
  shows "snd (hit p h allEnemies st) a =
     (if a = h then fst (takeDamage (st h) (damage_p p))
      else if splash_p p \<and> 0 < splashRadius_p p \<and> a \<in> set allEnemies \<and> isAlive (st a) \<and>
              impactDistance p (st a) \<le> splashRadius_p p \<and> 0 < specSplashDamage p (st a)
      then fst (takeDamage (st a) (specSplashDamage p (st a)))
      else st a)"
proof (cases "a = h")
  case True
  then show ?thesis
    using assms(1) by (simp add: hit_def Let_def applySplashDamage_def splashLoop_center)
next
  case False
  note ne = this
  let ?p1 = "p \<lparr> hasHit := True \<rparr>"
  let ?st1 = "st (h := fst (takeDamage (st h) (damage_p p)))"
  have same: "?st1 a = st a" using ne by simp
  have imp: "impactDistance ?p1 e = impactDistance p e" for e
    by (simp add: impactDistance_def)
  show ?thesis
  proof (cases "splash_p p \<and> 0 < splashRadius_p p")
    case False
    then show ?thesis using assms(1) ne by (auto simp add: hit_def Let_def)
  next
    case True
    then have h: "snd (hit p h allEnemies st) a =
        splashLoop ?p1 (real_of_int \<lfloor>fmul (damage_p p) (fl (7 / 10))\<rfloor>) h allEnemies ?st1 a"
      using assms(1) by (simp add: hit_def Let_def applySplashDamage_def)
    show ?thesis
    proof (cases "a \<in> set allEnemies")
      case False
      then show ?thesis using h ne same by (simp add: splashLoop_other)
    next
      case True
      show ?thesis
        unfolding h splashLoop_member [OF assms(2) True ne]
        using ne True \<open>splash_p p \<and> 0 < splashRadius_p p\<close>
        by (simp add: Let_def imp specSplashDamage_def)
    qed
  qed
qed

lemma hit_guard: "hasHit p \<Longrightarrow> hit p a es st = (p, st)"
  by (simp add: hit_def)

lemma hit_sets: "hasHit (fst (hit p a es st))"
  by (simp add: hit_def Let_def destroy_def)

lemma checkCollisions_guard: "hasHit p \<Longrightarrow> checkCollisions p es st = (p, st)"
  by (simp add: checkCollisions_def)

lemma checkCollisions_cases:
  "checkCollisions p es st = (p, st) \<or>
   (\<not> hasHit p \<and> (\<exists>a. checkCollisions p es st = hit p a es st))"
  by (auto simp add: checkCollisions_def split: option.splits)

lemma updatePosition_hasHit: "hasHit (updatePosition p st dt) = hasHit p"
  by (simp add: updatePosition_def Let_def destroy_def adjustTrajectory_def)

lemma updateTrail_hasHit: "hasHit (updateTrail p) = hasHit p"
  by (simp add: updateTrail_def Let_def)

lemma checkBounds_hasHit: "hasHit (checkBounds p) = hasHit p"
  by (simp add: checkBounds_def destroy_def)

lemma updateVisualEffects_p_hasHit: "hasHit (updateVisualEffects_p p dt) = hasHit p"
  by (simp add: updateVisualEffects_p_def Let_def)

lemma update_p_unfold:
  "update_p p dt es st =
     (if \<not> active_p p then (p, st)
      else if timeAlive p + dt > maxLifetime p then (destroy (p \<lparr> timeAlive := timeAlive p + dt \<rparr>), st)
      else (updateVisualEffects_p (checkBounds (fst (checkCollisions
              (updateTrail (updatePosition (p \<lparr> timeAlive := timeAlive p + dt \<rparr>) st dt)) es st))) dt,
            snd (checkCollisions
              (updateTrail (updatePosition (p \<lparr> timeAlive := timeAlive p + dt \<rparr>) st dt)) es st)))"
  by (simp add: update_p_def Let_def split_beta)

lemma update_p_after_hit:
  assumes "hasHit p"
  shows "snd (update_p p dt es st) = st" and "hasHit (fst (update_p p dt es st))"
proof -
  let ?q = "updateTrail (updatePosition (p \<lparr> timeAlive := timeAlive p + dt \<rparr>) st dt)"
  have q: "hasHit ?q" using assms by (simp add: updateTrail_hasHit updatePosition_hasHit)
  have c: "checkCollisions ?q es st = (?q, st)" using q by (rule checkCollisions_guard)
  show "snd (update_p p dt es st) = st"
    unfolding update_p_unfold c by simp
  show "hasHit (fst (update_p p dt es st))"
    unfolding update_p_unfold c using assms q
    by (simp add: destroy_def updateVisualEffects_p_hasHit checkBounds_hasHit)
qed

lemma update_p_hasHit_mono: "hasHit p \<Longrightarrow> hasHit (fst (update_p p dt es st))"
  by (rule update_p_after_hit)

lemma update_p_damage_in_transition:
  assumes "snd (update_p p dt es st) \<noteq> st"
  shows "\<not> hasHit p \<and> hasHit (fst (update_p p dt es st))"
proof -
  let ?q = "updateTrail (updatePosition (p \<lparr> timeAlive := timeAlive p + dt \<rparr>) st dt)"
  have np: "\<not> hasHit p" using assms update_p_after_hit(1) by blast
  have act: "active_p p" "\<not> timeAlive p + dt > maxLifetime p"
    using assms unfolding update_p_unfold by (auto split: if_splits)
  have sn: "snd (checkCollisions ?q es st) \<noteq> st"
    using assms act unfolding update_p_unfold by simp
  from checkCollisions_cases [of ?q es st] obtain a where
    "checkCollisions ?q es st = hit ?q a es st"
    using sn by auto
  then have "hasHit (fst (checkCollisions ?q es st))" by (simp add: hit_sets)
  then have "hasHit (fst (update_p p dt es st))"
    using act unfolding update_p_unfold
    by (simp add: updateVisualEffects_p_hasHit checkBounds_hasHit)
  then show ?thesis using np by simp
qed

lemma updates_p_after_hit:
  "hasHit p \<Longrightarrow> snd (updates_p p ticks st) = st \<and> hasHit (fst (updates_p p ticks st))"
proof (induction ticks arbitrary: p)
  case Nil
  then show ?case by simp
next
  case (Cons tick ticks)
  obtain dt es where t: "tick = (dt, es)" by (cases tick) auto
  have 1: "snd (update_p p dt es st) = st" "hasHit (fst (update_p p dt es st))"
    using Cons.prems by (rule update_p_after_hit)+
  show ?case
    using Cons.IH [OF 1(2)] 1(1) by (simp add: t split_beta)
qed


lemma atan2_right: "0 < x \<Longrightarrow> atan2 0 x = 0"
  by (simp add: atan2_def)

lemma getPositionOnPath_first:
  assumes "0 < d" "d \<le> 120"
  shows "getPositionOnPath (d / 1340) = \<lparr> pp_x = d - 20, pp_y = 300, pp_angle = 0 \<rparr>"
proof -
  have c: "clamp (d / 1340) 0 1 = d / 1340" using assms by (simp add: clamp_def)
  have n: "d / 1340 \<noteq> 0" "d / 1340 \<noteq> 1" using assms by simp_all
  show ?thesis
    unfolding getPositionOnPath_def Let_def c
    using assms n
    by (simp add: calculatePathLength_value PATH_COORDINATES_def distance_horizontal
        lerp_def angleBetween_def atan2_right)
qed

lemma getPositionOnPath_second:
  assumes "120 < d" "d \<le> 220"
  shows "getPositionOnPath (d / 1340) = \<lparr> pp_x = d - 20, pp_y = 300, pp_angle = 0 \<rparr>"
proof -
  have c: "clamp (d / 1340) 0 1 = d / 1340" using assms by (simp add: clamp_def)
  have n: "d / 1340 \<noteq> 0" "d / 1340 \<noteq> 1" using assms by simp_all
  show ?thesis
    unfolding getPositionOnPath_def Let_def c
    using assms n
    by (simp add: calculatePathLength_value PATH_COORDINATES_def distance_horizontal
        lerp_def angleBetween_def atan2_right diff_divide_distrib)
qed

lemma enemyAt_fields:
  "health (enemyAt ty pr) = cfg_health (ENEMY_TYPES ty)"
  "alive (enemyAt ty pr)"
  "speed (enemyAt ty pr) = cfg_speed (ENEMY_TYPES ty)"
  "pathSpeed (enemyAt ty pr) = cfg_pathSpeed (ENEMY_TYPES ty)"
  "esize (enemyAt ty pr) = cfg_size (ENEMY_TYPES ty)"
  "pathProgress (enemyAt ty pr) = pr"
  by (simp_all add: enemyAt_def Enemy_def updatePositionFromPath_def Let_def)

lemma enemyAt_position:
  "0 < d \<Longrightarrow> d \<le> 220 \<Longrightarrow> position (enemyAt ty (d / 1340)) = (d - 20, 300)"
  "0 < d \<Longrightarrow> d \<le> 220 \<Longrightarrow> direction (enemyAt ty (d / 1340)) = (1, 0)"
proof -
  assume a: "0 < d" "d \<le> 220"
  have "getPositionOnPath (d / 1340) = \<lparr> pp_x = d - 20, pp_y = 300, pp_angle = 0 \<rparr>"
    using a getPositionOnPath_first [of d] getPositionOnPath_second [of d] by (cases "d \<le> 120") simp_all
  then show "position (enemyAt ty (d / 1340)) = (d - 20, 300)"
    "direction (enemyAt ty (d / 1340)) = (1, 0)"
    by (simp_all add: enemyAt_def Enemy_def updatePositionFromPath_def Let_def)
qed


lemma sqrt_sq: "0 \<le> x \<Longrightarrow> sqrt (x * x) = x"
  by simp


lemma lineUp_facts:
  "position (lineUp a) = (100, 300)" "direction (lineUp a) = (1, 0)" "alive (lineUp a)"
  "speed (lineUp a) = 60" "pathSpeed (lineUp a) = 1" "esize (lineUp a) = 20" "health (lineUp a) = 100"
  using enemyAt_position [of 120 BASIC]
  by (simp_all add: lineUp_def enemyAt_fields)

lemma sqrt_16900: "sqrt 16900 = 130"
  using sqrt_sq [of 130] by simp

lemma sqrt_169: "sqrt 169 = 13"
  using sqrt_sq [of 13] by simp

lemma basicShot_fields:
  "position_p basicShot = (0, 300)" "velocity basicShot = (200, 0)" "active_p basicShot" "\<not> hasHit basicShot"
  "target_p basicShot = Some 0" "speed_p basicShot = 200" "damage_p basicShot = 25" "\<not> splash_p basicShot"
  "timeAlive basicShot = 0" "maxLifetime basicShot = 5000" "distanceTraveled basicShot = 0" "maxDistance basicShot = 1000"
  "useTargetPrediction basicShot" "predictionTime basicShot = 1 / 2" "size_p basicShot = 6"
  by (simp_all add: basicShot_def Projectile_def calculateInitialVelocity_def targetAlive_def
      predictTargetPosition_def calculateTargetVelocity_def isAlive_def lineUp_facts Let_def
      distance_horizontal sqrt_16900)


lemma basicShotMoved_fields:
  "position_p basicShotMoved = (90, 300)" "active_p basicShotMoved" "\<not> hasHit basicShotMoved" "target_p basicShotMoved = Some 0"
  "damage_p basicShotMoved = 25" "\<not> splash_p basicShotMoved" "size_p basicShotMoved = 6"
  by (simp_all add: basicShotMoved_def updateTrail_def updatePosition_def adjustTrajectory_def
      targetAlive_def predictTargetPosition_def calculateTargetVelocity_def isAlive_def
      lineUp_facts basicShot_fields Let_def distance_horizontal sqrt_169 destroy_def lerp_def)

lemma basicShotMoved_collides: "checkCollisionWithEnemy basicShotMoved (lineUp 0)"
  by (simp add: checkCollisionWithEnemy_def basicShotMoved_fields lineUp_facts distance_horizontal Let_def)

lemma basicShotMoved_hit:
  "checkCollisions basicShotMoved [0] lineUp = hit basicShotMoved 0 [0] lineUp"
  by (simp add: checkCollisions_def basicShotMoved_fields targetAlive_def isAlive_def lineUp_facts basicShotMoved_collides)

lemma hit_basicShotMoved:
  "snd (hit basicShotMoved 0 [0] lineUp) = lineUp (0 := fst (takeDamage (lineUp 0) 25))"
  "hasHit (fst (hit basicShotMoved 0 [0] lineUp))"
  "\<not> active_p (fst (hit basicShotMoved 0 [0] lineUp))"
  by (simp_all add: hit_def basicShotMoved_fields Let_def destroy_def)

lemma basicShot_first_tick:
  "snd (update_p basicShot 450 [0] lineUp) = lineUp (0 := fst (takeDamage (lineUp 0) 25))"
  "hasHit (fst (update_p basicShot 450 [0] lineUp))"
  "\<not> active_p (fst (update_p basicShot 450 [0] lineUp))"
  unfolding update_p_unfold basicShotMoved_def [symmetric] basicShotMoved_hit
  by (simp_all add: basicShot_fields hit_basicShotMoved checkBounds_def updateVisualEffects_p_def destroy_def Let_def)

lemma lineUp_damaged: "health (fst (takeDamage (lineUp 0) 25)) = 75"
  by (simp add: takeDamage_def lineUp_facts Let_def)



lemma Projectile_fields:
  "damage_p (Projectile x y t d s sp r st) = d"
  "splash_p (Projectile x y t d s sp r st) = sp"
  "splashRadius_p (Projectile x y t d s sp r st) = r"
  "\<not> hasHit (Projectile x y t d s sp r st)"
  by (simp_all add: Projectile_def calculateInitialVelocity_def Let_def)

lemma crowd_facts:
  "position (crowd 5) = (100, 300)" "position (crowd 6) = (125, 300)"
  "position (crowd 7) = (140, 300)" "position (crowd 8) = (200, 300)"
  "position (crowd 9) = (90, 300)"
  "health (crowd 5) = 100" "health (crowd 6) = 300" "health (crowd 9) = 100"
  "alive (crowd 5)" "alive (crowd 6)" "alive (crowd 7)" "alive (crowd 8)" "alive (crowd 9)"
  by (simp_all add: crowd_def Enemy_fields)

lemma areaShot_facts:
  "position_p areaShot = (90, 300)" "damage_p areaShot = 40" "splash_p areaShot"
  "splashRadius_p areaShot = 50" "\<not> hasHit areaShot"
  by (simp_all add: areaShot_def Projectile_fields)

lemma heavyShot_facts:
  "position_p heavyShot = (90, 300)" "damage_p heavyShot = 90" "splash_p heavyShot"
  "splashRadius_p heavyShot = 50" "\<not> hasHit heavyShot"
  by (simp_all add: heavyShot_def Projectile_fields)

lemma areaShot_distances:
  "impactDistance areaShot (crowd 6) = 35" "impactDistance areaShot (crowd 7) = 50"
  "impactDistance areaShot (crowd 8) = 110" "impactDistance areaShot (crowd 9) = 0"
  "impactDistance heavyShot (crowd 9) = 0"
  by (simp_all add: impactDistance_def areaShot_facts heavyShot_facts crowd_facts
      distance_horizontal)

text \<open>
  The splash amounts of the two shots.  \<open>40 * 0.7\<close> rounds to 28 and \<open>90 * 0.7\<close> to the
  double below 63; at distance 35 of 50 the factor \<open>1 - 35 / 50\<close> is the double above 0.3.
\<close>

lemma splashDamage_40: "real_of_int \<lfloor>fmul 40 (fl (7 / 10))\<rfloor> = 28"
  unfolding fmul_def fl_40 by simp

lemma splashDamage_90: "real_of_int \<lfloor>fmul 90 (fl (7 / 10))\<rfloor> = 62"
  unfolding fmul_def fl_90 by simp

lemma factor_35_50: "fsub 1 (fdiv 35 50) = 1351079888211149 / 4503599627370496"
proof -
  have a: "fdiv 35 50 = fl (7 / 10)" by (simp add: fdiv_def)
  have b: "fl (1 - 3152519739159347 / 4503599627370496) = 1351079888211149 / 4503599627370496"
    using fl_lt1 [of 2 "1 - 3152519739159347 / 4503599627370496"] by (simp add: roundEven_def)
  show ?thesis unfolding fsub_def a fl_7_10 by (rule b)
qed

lemma amount_35_50: "real_of_int \<lfloor>fmul 28 (1351079888211149 / 4503599627370496)\<rfloor> = 8"
proof -
  have v: "fl (28 * (1351079888211149 / 4503599627370496)) = 2364389804369511 / 281474976710656"
    using fl_ge1 [of 3 "28 * (1351079888211149 / 4503599627370496)"] by (simp add: roundEven_def)
  show ?thesis unfolding fmul_def v by simp
qed

lemma factor_whole:
  "fsub 1 (fdiv 50 50) = 0" "fsub 1 (fdiv 0 50) = 1"
  by (simp_all add: fsub_def fdiv_def fl_zero fl_int)

lemma amount_whole:
  "real_of_int \<lfloor>fmul 28 0\<rfloor> = 0" "real_of_int \<lfloor>fmul 28 1\<rfloor> = 28"
  "real_of_int \<lfloor>fmul 62 1\<rfloor> = 62"
  by (simp_all add: fmul_def fl_zero fl_int)

lemma areaShot_splash:
  "specSplashDamage areaShot (crowd 6) = 8" "specSplashDamage areaShot (crowd 7) = 0"
  "specSplashDamage areaShot (crowd 9) = 28" "specSplashDamage heavyShot (crowd 9) = 62"
  unfolding specSplashDamage_def areaShot_distances areaShot_facts heavyShot_facts
    splashDamage_40 splashDamage_90 factor_35_50 factor_whole amount_35_50 amount_whole
  by (rule refl)+

theorem splash_damage_resolution_witness:
  "\<not> hasHit areaShot \<and> distinct [5, 6, 7, 8, 9 :: nat] \<and>
   health (snd (hit areaShot 5 [5, 6, 7, 8, 9] crowd) 5) = 60 \<and>
   health (snd (hit areaShot 5 [5, 6, 7, 8, 9] crowd) 6) = 292 \<and>
   snd (hit areaShot 5 [5, 6, 7, 8, 9] crowd) 7 = crowd 7 \<and>
   snd (hit areaShot 5 [5, 6, 7, 8, 9] crowd) 8 = crowd 8 \<and>
   health (snd (hit areaShot 5 [5, 6, 7, 8, 9] crowd) 9) = 72 \<and>
   \<not> hasHit heavyShot \<and>
   health (snd (hit heavyShot 5 [5, 6, 7, 8, 9] crowd) 9) = 38"
proof -
  have h: "\<not> hasHit areaShot" "distinct [5, 6, 7, 8, 9 :: nat]"
    by (simp_all add: areaShot_facts)
  have g: "\<not> hasHit heavyShot" by (simp add: heavyShot_facts)
  show ?thesis
    using h g splash_damage_resolution [OF h, of 5 crowd 5] splash_damage_resolution [OF h, of 5 crowd 6]
      splash_damage_resolution [OF h, of 5 crowd 7] splash_damage_resolution [OF h, of 5 crowd 8]
      splash_damage_resolution [OF h, of 5 crowd 9]
      splash_damage_resolution [OF g h(2), of 5 crowd 9]
    by (simp add: areaShot_facts heavyShot_facts areaShot_distances areaShot_splash crowd_facts
        isAlive_def takeDamage_def Let_def)
qed

text \<open>
  C4.  Once \<open>hasHit\<close> is true it stays true and the projectile changes no enemy again:
  \<open>hit\<close> and \<open>checkCollisions\<close> return at once, and one update or any run of updates
  leaves every enemy as it was.  \<open>hit\<close> on a projectile that has not hit sets the flag.
  Whenever an update changes an enemy, the flag was false before it and is true after it,
  so all damage of a projectile falls within the single change of the flag from false to
  true.
\<close>

theorem hasHit_set_once_and_guards_damage:
  "(hasHit p \<longrightarrow>
      hit p a es st = (p, st) \<and> checkCollisions p es st = (p, st) \<and>
      snd (update_p p dt es st) = st \<and> hasHit (fst (update_p p dt es st)) \<and>
      snd (updates_p p ticks st) = st \<and> hasHit (fst (updates_p p ticks st))) \<and>
   (\<not> hasHit p \<longrightarrow> hasHit (fst (hit p a es st))) \<and>
   (snd (update_p p dt es st) \<noteq> st \<longrightarrow>
      \<not> hasHit p \<and> hasHit (fst (update_p p dt es st)))"
  using hit_guard [of p a es st] checkCollisions_guard [of p es st]
    update_p_after_hit [of p dt es st] updates_p_after_hit [of p ticks st]
    hit_sets [of p a es st] update_p_damage_in_transition [of p dt es st]
  by blast

theorem hasHit_set_once_and_guards_damage_witness:
  "\<not> hasHit basicShot \<and>
   hasHit (fst (update_p basicShot 450 [0] lineUp)) \<and>
   snd (update_p basicShot 450 [0] lineUp) \<noteq> lineUp \<and>
   health (snd (update_p basicShot 450 [0] lineUp) 0) = 75 \<and>
   snd (update_p (fst (update_p basicShot 450 [0] lineUp)) 16 [0] (snd (update_p basicShot 450 [0] lineUp))) =
     snd (update_p basicShot 450 [0] lineUp) \<and>
   hit (fst (update_p basicShot 450 [0] lineUp)) 0 [0] (snd (update_p basicShot 450 [0] lineUp)) =
     (fst (update_p basicShot 450 [0] lineUp), snd (update_p basicShot 450 [0] lineUp))"
proof -
  let ?p1 = "fst (update_p basicShot 450 [0] lineUp)"
  let ?st1 = "snd (update_p basicShot 450 [0] lineUp)"
  have "health (?st1 0) \<noteq> health (lineUp 0)"
    by (simp add: basicShot_first_tick lineUp_damaged lineUp_facts)
  then have ne: "?st1 \<noteq> lineUp" by auto
  have hh: "hasHit ?p1" by (rule basicShot_first_tick)
  show ?thesis
    using ne hh
      hasHit_set_once_and_guards_damage [of basicShot 0 "[0]" lineUp 450 "[]"]
      hasHit_set_once_and_guards_damage [of ?p1 0 "[0]" ?st1 16 "[]"]
    by (simp add: basicShot_first_tick lineUp_damaged)
qed

section \<open>Facts and claims about towers\<close>

lemma foldl_first_min:
  fixes k :: "'a \<Rightarrow> real"
  shows "\<exists>i < length (x # xs).
           foldl (\<lambda>best current. if k current < k best then current else best) x xs = (x # xs) ! i \<and>
           (\<forall>j < length (x # xs). k ((x # xs) ! i) \<le> k ((x # xs) ! j)) \<and>
           (\<forall>j < i. k ((x # xs) ! i) < k ((x # xs) ! j))"
proof (induction xs rule: rev_induct)
  case Nil
  show ?case by simp
next
  case (snoc y ys)
  let ?pick = "\<lambda>best current. if k current < k best then current else best"
  let ?r = "foldl ?pick x ys"
  from snoc obtain i where i: "i < length (x # ys)" "?r = (x # ys) ! i"
    and mn: "\<forall>j < length (x # ys). k ((x # ys) ! i) \<le> k ((x # ys) ! j)"
    and fst: "\<forall>j < i. k ((x # ys) ! i) < k ((x # ys) ! j)"
    by blast
  have app: "x # ys @ [y] = (x # ys) @ [y]" by simp
  have old: "(x # ys @ [y]) ! j = (x # ys) ! j" if "j < length (x # ys)" for j
    unfolding app using that by (simp only: nth_append if_True)
  have new: "(x # ys @ [y]) ! length (x # ys) = y"
    unfolding app by (simp only: nth_append_length)
  have len: "length (x # ys @ [y]) = Suc (length (x # ys))" by simp
  show ?case
  proof (cases "k y < k ?r")
    case True
    then have res: "foldl ?pick x (ys @ [y]) = y" by simp
    have a: "\<forall>j < length (x # ys @ [y]). k y \<le> k ((x # ys @ [y]) ! j)"
    proof (intro allI impI)
      fix j assume "j < length (x # ys @ [y])"
      then consider "j < length (x # ys)" | "j = length (x # ys)" unfolding len by linarith
      then show "k y \<le> k ((x # ys @ [y]) ! j)"
      proof cases
        case 1
        then show ?thesis using old [OF 1] mn i(2) True by fastforce
      next
        case 2
        then show ?thesis using new by simp
      qed
    qed
    have b: "\<forall>j < length (x # ys). k y < k ((x # ys @ [y]) ! j)"
    proof (intro allI impI)
      fix j assume j: "j < length (x # ys)"
      then show "k y < k ((x # ys @ [y]) ! j)" using old [OF j] mn i(2) True by fastforce
    qed
    show ?thesis
      apply (rule exI [of _ "length (x # ys)"])
      unfolding res new using a b len by simp
  next
    case False
    then have res: "foldl ?pick x (ys @ [y]) = ?r" by simp
    have a: "\<forall>j < length (x # ys @ [y]). k ((x # ys) ! i) \<le> k ((x # ys @ [y]) ! j)"
    proof (intro allI impI)
      fix j assume "j < length (x # ys @ [y])"
      then consider "j < length (x # ys)" | "j = length (x # ys)" unfolding len by linarith
      then show "k ((x # ys) ! i) \<le> k ((x # ys @ [y]) ! j)"
      proof cases
        case 1
        then show ?thesis using old [OF 1] mn by simp
      next
        case 2
        then show ?thesis using new False i(2) by simp
      qed
    qed
    have b: "\<forall>j < i. k ((x # ys) ! i) < k ((x # ys @ [y]) ! j)"
    proof (intro allI impI)
      fix j assume j: "j < i"
      then have "j < length (x # ys)" using i(1) by linarith
      then show "k ((x # ys) ! i) < k ((x # ys @ [y]) ! j)" using old fst j by simp
    qed
    have ii: "i < length (x # ys @ [y])" using i(1) len by linarith
    show ?thesis
      apply (rule exI [of _ i])
      unfolding res i(2) old [OF i(1)] using a b ii by simp
  qed
qed

lemma reduce_first_min:
  fixes k :: "'a \<Rightarrow> real"
  assumes "xs \<noteq> []"
  shows "\<exists>i < length xs.
           reduce (\<lambda>best current. if k current < k best then current else best) xs = Inr (xs ! i) \<and>
           (\<forall>j < length xs. k (xs ! i) \<le> k (xs ! j)) \<and>
           (\<forall>j < i. k (xs ! i) < k (xs ! j))"
proof -
  obtain x ys where xs: "xs = x # ys" using assms by (cases xs) auto
  show ?thesis unfolding xs reduce.simps using foldl_first_min [of x ys k] by simp
qed

lemma distance_euclidean:
  "distance (fst a) (snd a) (fst b) (snd b) = euclidean a b"
  by (simp add: distance_def euclidean_def Let_def)

lemma first_of_tie:
  fixes k :: "'a \<Rightarrow> real"
  assumes "[x, y] \<noteq> [] \<longrightarrow>
             (\<exists>i < length [x, y]. r = f ([x, y] ! i) \<and>
                (\<forall>j < length [x, y]. k ([x, y] ! i) \<le> k ([x, y] ! j)) \<and>
                (\<forall>j < i. k ([x, y] ! i) < k ([x, y] ! j)))"
    and "k x = k y"
  shows "r = f x"
proof -
  have "[x, y] \<noteq> []" by simp
  with assms(1) obtain i where i: "i < length [x, y]" "r = f ([x, y] ! i)"
    "\<forall>j < i. k ([x, y] ! i) < k ([x, y] ! j)"
    by blast
  have "i = 0"
  proof (rule ccontr)
    assume "i \<noteq> 0"
    then have one: "i = 1" using i(1) by simp
    have "k ([x, y] ! 1) < k ([x, y] ! 0)" using i(3) unfolding one by simp
    then show False using assms(2) by simp
  qed
  then show ?thesis using i(2) by simp
qed

lemma isInRange_withinRange: "isInRange t e = withinRange t e"
  by (simp add: isInRange_def withinRange_def distance_euclidean Let_def)

lemma targetValid_holdsTarget: "targetValid t st = holdsTarget t st"
  by (simp add: targetValid_def holdsTarget_def isAlive_def isInRange_withinRange split: option.split)

lemma getDistanceToEnd_remainingRoute: "getDistanceToEnd e = remainingRoute e"
  by (simp add: getDistanceToEnd_def remainingRoute_def fmul_def mult.commute Let_def)

lemma withinRange_target: "withinRange (t \<lparr> target_t := x \<rparr>) e = withinRange t e"
  by (simp add: withinRange_def)

lemma findTarget_acquire:
  assumes "\<not> holdsTarget t st"
  shows "findTarget t st es =
     (if candidates t st es = [] then Inr (t \<lparr> target_t := None \<rparr>)
      else case selectBestTarget (t \<lparr> target_t := None \<rparr>) st (candidates t st es) of
             Inl err \<Rightarrow> Inl err
           | Inr best \<Rightarrow> Inr (t \<lparr> target_t := best \<rparr>))"
proof -
  have t1: "(if target_t t \<noteq> None \<and> \<not> targetValid t st then t \<lparr> target_t := None \<rparr> else t)
            = t \<lparr> target_t := None \<rparr>"
    using assms by (auto simp add: targetValid_holdsTarget)
  have nv: "\<not> targetValid (t \<lparr> target_t := None \<rparr>) st" by (simp add: targetValid_def)
  show ?thesis
    unfolding findTarget_def Let_def t1 candidates_def
    using nv by (simp add: isInRange_withinRange isAlive_def withinRange_target split: sum.split)
qed

text \<open>
  The remaining route distance at the progress values of the scenarios: at 0.8 it is the
  double below 268, at 0.5 it is 670, and at 0.25 and at the next double above 0.25 it is
  1005.
\<close>

lemma fl_8_10: "fl (8 / 10) = 3602879701896397 / 4503599627370496"
  using fl_lt1 [of 1 "8 / 10"] by (simp add: roundEven_def)

lemma fl_5_10: "fl (5 / 10) = 1 / 2"
  using fl_lt1 [of 1 "5 / 10"] by (simp add: roundEven_def)

lemma remainingRoute_8_10:
  assumes "pathProgress e = fl (8 / 10)"
  shows "remainingRoute e = 4714705859903487 / 17592186044416"
proof -
  have a: "fl (1 - 3602879701896397 / 4503599627370496) = 900719925474099 / 4503599627370496"
    using fl_lt1 [of 3 "1 - 3602879701896397 / 4503599627370496"] by (simp add: roundEven_def)
  have b: "fl (900719925474099 / 4503599627370496 * 1340) = 4714705859903487 / 17592186044416"
    using fl_ge1 [of 8 "900719925474099 / 4503599627370496 * 1340"] by (simp add: roundEven_def)
  show ?thesis
    unfolding remainingRoute_def assms fl_8_10 fsub_def fmul_def a calculatePathLength_value
    by (rule b)
qed

lemma remainingRoute_5_10:
  assumes "pathProgress e = fl (5 / 10)"
  shows "remainingRoute e = 670"
proof -
  have a: "fl (1 - 1 / 2) = 1 / 2"
    using fl_lt1 [of 1 "1 - 1 / 2"] by (simp add: roundEven_def)
  have b: "fl (1 / 2 * 1340) = 670" by (simp add: fl_int)
  show ?thesis
    unfolding remainingRoute_def assms fl_5_10 fsub_def fmul_def a calculatePathLength_value
    by (rule b)
qed

lemma remainingRoute_quarter:
  assumes "pathProgress e = 1 / 4 \<or> pathProgress e = 1 / 4 + 1 / 2 ^ 54"
  shows "remainingRoute e = 1005"
proof -
  have a: "fl (1 - 1 / 4) = 3 / 4"
    using fl_lt1 [of 1 "1 - 1 / 4"] by (simp add: roundEven_def)
  have a': "fl (1 - (1 / 4 + 1 / 2 ^ 54)) = 3 / 4"
    using fl_lt1 [of 1 "1 - (1 / 4 + 1 / 2 ^ 54)"] by (simp add: roundEven_def)
  have b: "fl (3 / 4 * 1340) = 1005" by (simp add: fl_int)
  from assms show ?thesis
  proof
    assume p: "pathProgress e = 1 / 4"
    show ?thesis
      unfolding remainingRoute_def p fsub_def fmul_def a calculatePathLength_value by (rule b)
  next
    assume p: "pathProgress e = 1 / 4 + 1 / 2 ^ 54"
    show ?thesis
      unfolding remainingRoute_def p fsub_def fmul_def a' calculatePathLength_value by (rule b)
  qed
qed

text \<open>
  C7.  When a tower under the policy \<open>closest_to_end\<close> acquires a new target (it holds no
  alive target within its range), the units considered are exactly the candidates of the
  specification: the alive units of the array whose Euclidean distance from the tower is
  at most its range, in array order.  With no candidate the target is none.  Otherwise the
  target is a candidate whose remaining route distance \<open>(1 - progress) * totalLength\<close>,
  taken in the arithmetic of doubles, is least among the candidates, and every candidate
  before it in the array is strictly farther from the end: ties go to the first
  encountered.  With two candidates at progress 0.8 and 0.5, in either order, the one at
  0.8 is selected.
\<close>

theorem closest_to_end_picks_first_nearest:
  assumes "targetingMode t = ''closest_to_end''" and "\<not> holdsTarget t st"
  shows "(candidates t st es = [] \<longrightarrow> findTarget t st es = Inr (t \<lparr> target_t := None \<rparr>)) \<and>
         (candidates t st es \<noteq> [] \<longrightarrow>
            (\<exists>i < length (candidates t st es).
               findTarget t st es = Inr (t \<lparr> target_t := Some (candidates t st es ! i) \<rparr>) \<and>
               (\<forall>j < length (candidates t st es).
                  remainingRoute (st (candidates t st es ! i)) \<le>
                  remainingRoute (st (candidates t st es ! j))) \<and>
               (\<forall>j < i.
                  remainingRoute (st (candidates t st es ! i)) <
                  remainingRoute (st (candidates t st es ! j))))) \<and>
         (\<forall>a b. pathProgress (st a) = fl (8 / 10) \<and> pathProgress (st b) = fl (5 / 10) \<and>
                 (candidates t st es = [a, b] \<or> candidates t st es = [b, a]) \<longrightarrow>
                 findTarget t st es = Inr (t \<lparr> target_t := Some a \<rparr>))"
proof -
  let ?v = "candidates t st es"
  let ?k = "\<lambda>a. remainingRoute (st a)"
  have mode: "targetingMode (t \<lparr> target_t := None \<rparr>) = ''closest_to_end''"
    using assms(1) by simp
  have sel: "selectBestTarget (t \<lparr> target_t := None \<rparr>) st ?v =
      map_sum id Some (reduce (\<lambda>best current. if ?k current < ?k best then current else best) ?v)"
    if "?v \<noteq> []"
    using that mode by (simp add: selectBestTarget_def getDistanceToEnd_remainingRoute)
  have 1: "?v = [] \<longrightarrow> findTarget t st es = Inr (t \<lparr> target_t := None \<rparr>)"
    by (simp add: findTarget_acquire [OF assms(2)])
  have 2: "?v \<noteq> [] \<longrightarrow>
            (\<exists>i < length ?v.
               findTarget t st es = Inr (t \<lparr> target_t := Some (?v ! i) \<rparr>) \<and>
               (\<forall>j < length ?v. ?k (?v ! i) \<le> ?k (?v ! j)) \<and>
               (\<forall>j < i. ?k (?v ! i) < ?k (?v ! j)))"
  proof
    assume ne: "?v \<noteq> []"
    from reduce_first_min [OF ne, of ?k] obtain i where
      i: "i < length ?v"
      "reduce (\<lambda>best current. if ?k current < ?k best then current else best) ?v = Inr (?v ! i)"
      "\<forall>j < length ?v. ?k (?v ! i) \<le> ?k (?v ! j)"
      "\<forall>j < i. ?k (?v ! i) < ?k (?v ! j)"
      by blast
    have "findTarget t st es = Inr (t \<lparr> target_t := Some (?v ! i) \<rparr>)"
      using ne by (simp add: findTarget_acquire [OF assms(2)] sel [OF ne] i(2))
    then show "\<exists>i < length ?v.
               findTarget t st es = Inr (t \<lparr> target_t := Some (?v ! i) \<rparr>) \<and>
               (\<forall>j < length ?v. ?k (?v ! i) \<le> ?k (?v ! j)) \<and>
               (\<forall>j < i. ?k (?v ! i) < ?k (?v ! j))"
      using i by blast
  qed
  have 3: "\<forall>a b. pathProgress (st a) = fl (8 / 10) \<and> pathProgress (st b) = fl (5 / 10) \<and>
                 (?v = [a, b] \<or> ?v = [b, a]) \<longrightarrow>
                 findTarget t st es = Inr (t \<lparr> target_t := Some a \<rparr>)"
  proof (intro allI impI)
    fix a b
    assume h: "pathProgress (st a) = fl (8 / 10) \<and> pathProgress (st b) = fl (5 / 10) \<and>
                 (?v = [a, b] \<or> ?v = [b, a])"
    then have ne: "?v \<noteq> []" by auto
    have ka: "?k a = 4714705859903487 / 17592186044416" and kb: "?k b = 670"
      using h remainingRoute_8_10 [of "st a"] remainingRoute_5_10 [of "st b"] by simp_all
    have lt: "?k a < ?k b" unfolding ka kb by simp
    from h have "reduce (\<lambda>best current. if ?k current < ?k best then current else best) ?v = Inr a"
      using lt by auto
    then show "findTarget t st es = Inr (t \<lparr> target_t := Some a \<rparr>)"
      using ne by (simp add: findTarget_acquire [OF assms(2)] sel [OF ne])
  qed
  show ?thesis using 1 2 3 by blast
qed

lemma testTower_facts:
  "targetingMode testTower = ''closest_to_end''" "target_t testTower = None"
  "position_t testTower = (100, 100)" "range_t testTower = 100"
  by (simp_all add: testTower_def Tower_def Let_def)

lemma testEnemies_facts:
  "position (testEnemies 5) = (120, 100)" "position (testEnemies 6) = (130, 100)"
  "position (testEnemies 7) = (300, 100)" "position (testEnemies 8) = (110, 100)"
  "position (testEnemies 9) = (100, 150)" "position (testEnemies 10) = (100, 160)"
  "pathProgress (testEnemies 5) = fl (8 / 10)" "pathProgress (testEnemies 6) = fl (5 / 10)"
  "pathProgress (testEnemies 9) = 1 / 4" "pathProgress (testEnemies 10) = 1 / 4 + 1 / 2 ^ 54"
  "alive (testEnemies 5)" "alive (testEnemies 6)" "alive (testEnemies 7)"
  "\<not> alive (testEnemies 8)" "alive (testEnemies 9)" "alive (testEnemies 10)"
  by (simp_all add: testEnemies_def Enemy_fields takeDamage_def Let_def)

lemma euclidean_test:
  "euclidean (100, 100) (120, 100) = 20" "euclidean (100, 100) (130, 100) = 30"
  "euclidean (100, 100) (300, 100) = 200" "euclidean (100, 100) (110, 100) = 10"
  "euclidean (100, 100) (100, 150) = 50" "euclidean (100, 100) (100, 160) = 60"
  using distance_horizontal [of 120 100 100] distance_horizontal [of 130 100 100]
    distance_horizontal [of 300 100 100] distance_horizontal [of 110 100 100]
    distance_vertical [of 150 100 100] distance_vertical [of 160 100 100]
  by (simp_all flip: distance_euclidean)

lemma candidates_test:
  "candidates testTower testEnemies [5, 6] = [5, 6]"
  "candidates testTower testEnemies [6, 5] = [6, 5]"
  "candidates testTower testEnemies [7, 8, 6, 5] = [6, 5]"
  "candidates testTower testEnemies [7, 8] = []"
  "candidates testTower testEnemies [9, 10] = [9, 10]"
  "candidates testTower testEnemies [10, 9] = [10, 9]"
  by (simp_all add: candidates_def withinRange_def testTower_facts testEnemies_facts euclidean_test)

theorem closest_to_end_picks_first_nearest_witness:
  "targetingMode testTower = ''closest_to_end'' \<and> \<not> holdsTarget testTower testEnemies \<and>
   candidates testTower testEnemies [7, 8, 6, 5] = [6, 5] \<and>
   findTarget testTower testEnemies [7, 8, 6, 5] = Inr (testTower \<lparr> target_t := Some 5 \<rparr>) \<and>
   findTarget testTower testEnemies [5, 6] = Inr (testTower \<lparr> target_t := Some 5 \<rparr>) \<and>
   findTarget testTower testEnemies [6, 5] = Inr (testTower \<lparr> target_t := Some 5 \<rparr>) \<and>
   findTarget testTower testEnemies [7, 8] = Inr (testTower \<lparr> target_t := None \<rparr>) \<and>
   findTarget testTower testEnemies [9, 10] = Inr (testTower \<lparr> target_t := Some 9 \<rparr>) \<and>
   findTarget testTower testEnemies [10, 9] = Inr (testTower \<lparr> target_t := Some 10 \<rparr>)"
proof -
  have h: "targetingMode testTower = ''closest_to_end''" "\<not> holdsTarget testTower testEnemies"
    by (simp_all add: testTower_facts holdsTarget_def)
  have q: "remainingRoute (testEnemies 9) = 1005" "remainingRoute (testEnemies 10) = 1005"
    by (simp_all add: remainingRoute_quarter testEnemies_facts)
  have far: "findTarget testTower testEnemies [7, 8, 6, 5] = Inr (testTower \<lparr> target_t := Some 5 \<rparr>)"
    using closest_to_end_picks_first_nearest [OF h, of "[7, 8, 6, 5]"]
    by (simp add: candidates_test testEnemies_facts)
  have fwd: "findTarget testTower testEnemies [5, 6] = Inr (testTower \<lparr> target_t := Some 5 \<rparr>)"
    using closest_to_end_picks_first_nearest [OF h, of "[5, 6]"]
    by (simp add: candidates_test testEnemies_facts)
  have bwd: "findTarget testTower testEnemies [6, 5] = Inr (testTower \<lparr> target_t := Some 5 \<rparr>)"
    using closest_to_end_picks_first_nearest [OF h, of "[6, 5]"]
    by (simp add: candidates_test testEnemies_facts)
  have none: "findTarget testTower testEnemies [7, 8] = Inr (testTower \<lparr> target_t := None \<rparr>)"
    using closest_to_end_picks_first_nearest [OF h, of "[7, 8]"]
    by (simp add: candidates_test)
  have tie1: "findTarget testTower testEnemies [9, 10] = Inr (testTower \<lparr> target_t := Some 9 \<rparr>)"
    using closest_to_end_picks_first_nearest [OF h, of "[9, 10]", unfolded candidates_test]
    by (intro first_of_tie [where f = "\<lambda>a. Inr (testTower \<lparr> target_t := Some a \<rparr>)"
          and k = "\<lambda>a. remainingRoute (testEnemies a)" and x = 9 and y = 10])
       (simp_all only: q, blast)
  have tie2: "findTarget testTower testEnemies [10, 9] = Inr (testTower \<lparr> target_t := Some 10 \<rparr>)"
    using closest_to_end_picks_first_nearest [OF h, of "[10, 9]", unfolded candidates_test]
    by (intro first_of_tie [where f = "\<lambda>a. Inr (testTower \<lparr> target_t := Some a \<rparr>)"
          and k = "\<lambda>a. remainingRoute (testEnemies a)" and x = 10 and y = 9])
       (simp_all only: q, blast)
  show ?thesis
    using h far fwd bwd none tie1 tie2 by (simp add: candidates_test)
qed

lemma normalizeAbove_id: "a \<le> pi \<Longrightarrow> normalizeAbove a = a"
  by (subst normalizeAbove.simps) simp

lemma normalizeBelow_id: "- pi \<le> a \<Longrightarrow> normalizeBelow a = a"
  by (subst normalizeBelow.simps) simp

lemma atan2_up: "0 < y \<Longrightarrow> atan2 y 0 = pi / 2"
  by (simp add: atan2_def)

lemma placedTower_facts:
  "targetingMode placedTower = ''closest_to_end''" "target_t placedTower = None"
  "position_t placedTower = (96, 224)" "range_t placedTower = 100"
  "active_t placedTower" "rotationAngle placedTower = 0" "rotationSpeed placedTower = 5"
  "lastShotTime placedTower = 0" "shotCooldown placedTower = 500"
  "canShoot_own placedTower = Some True" "muzzleFlash placedTower = 0"
  by (simp_all add: placedTower_def Tower_def Let_def)

lemma passingEnemy_facts:
  "position (passingEnemy a) = (96, 300)" "alive (passingEnemy a)"
  using enemyAt_position(1) [of 116 BASIC]
  by (simp_all add: passingEnemy_def enemyAt_fields)

lemma methodTower_facts:
  "targetingMode methodTower = ''closest_to_end''" "target_t methodTower = None"
  "position_t methodTower = (96, 224)" "range_t methodTower = 100"
  "active_t methodTower" "rotationAngle methodTower = 0" "rotationSpeed methodTower = 5"
  "lastShotTime methodTower = 0" "shotCooldown methodTower = 500"
  "canShoot_own methodTower = None" "muzzleFlash methodTower = 0"
  by (simp_all add: methodTower_def placedTower_facts)

lemma findTarget_passingEnemy:
  assumes "position_t t = (96, 224)" "range_t t = 100" "target_t t = None"
    "targetingMode t = ''closest_to_end''"
  shows "findTarget t passingEnemy [0] = Inr (t \<lparr> target_t := Some 0 \<rparr>)"
proof -
  have v: "isAlive (passingEnemy 0)" "isInRange t (passingEnemy 0)"
    using assms by (simp_all add: isAlive_def isInRange_def passingEnemy_facts distance_vertical Let_def)
  have nv: "\<not> targetValid t passingEnemy" using assms by (simp add: targetValid_def)
  show ?thesis
    unfolding findTarget_def Let_def using nv assms(3,4)
    by (simp add: v selectBestTarget_def)
qed

lemma updateRotation_passingEnemy:
  assumes "position_t t = (96, 224)" "rotationAngle t = 0" "rotationSpeed t = 5" "target_t t = Some 0"
  shows "updateRotation t passingEnemy 16 = t \<lparr> targetAngle := pi / 2, rotationAngle := 8 / 100 \<rparr>"
proof -
  have n1: "normalizeBelow (normalizeAbove (pi / 2)) = pi / 2"
    using pi_gt_zero by (simp add: normalizeAbove_id normalizeBelow_id)
  have n2: "normalizeBelow (normalizeAbove (2 / 25)) = 2 / 25"
    using pi_ge_two by (simp add: normalizeAbove_id normalizeBelow_id)
  have b: "\<not> pi * 25 < 4" using pi_ge_two by simp
  show ?thesis
    unfolding updateRotation_def Let_def using assms
    by (simp add: passingEnemy_facts angleBetween_def atan2_up n1 n2 b)
qed

lemma aimError_quarter_turn:
  assumes "targetAngle t = pi / 2" "rotationAngle t = 8 / 100"
  shows "aimError t = pi / 2 - 8 / 100" "1 / 10 < aimError t"
proof -
  have a: "\<bar>pi / 2 - 8 / 100\<bar> = pi / 2 - 8 / 100" using pi_ge_two by simp
  show "aimError t = pi / 2 - 8 / 100"
    unfolding aimError_def Let_def assms a using pi_ge_two by simp
  then show "1 / 10 < aimError t" using pi_ge_two by simp
qed

lemma attemptShoot_declines:
  assumes "canShoot_own t = None" "targetAngle t = pi / 2" "rotationAngle t = 8 / 100"
  shows "attemptShoot t st dt now = Inr (t, False)"
  using aimError_quarter_turn(2) [OF assms(2,3)] assms(1)
  by (simp add: attemptShoot_def call_canShoot_def Let_def)

lemma attemptShoot_throws:
  assumes "canShoot_own t = Some True"
  shows "attemptShoot t st dt now = Inl TypeError"
  using assms by (simp add: attemptShoot_def call_canShoot_def)

lemma update_t_placedTower: "update_t placedTower passingEnemy [0] 16 10000 = Inl TypeError"
  unfolding update_t_def Let_def
  by (simp add: placedTower_facts updateVisualEffects_t_def findTarget_passingEnemy updateRotation_passingEnemy attemptShoot_throws)

lemma update_t_methodTower:
  "\<exists>t. update_t methodTower passingEnemy [0] 16 10000 = Inr (t, False) \<and>
       target_t t = Some 0 \<and> targetAngle t = pi / 2 \<and> rotationAngle t = 8 / 100 \<and>
       canShoot_own t = None \<and> lastShotTime t = 0 \<and> shotCooldown t = 500"
  unfolding update_t_def Let_def
  by (simp add: methodTower_facts updateVisualEffects_t_def findTarget_passingEnemy updateRotation_passingEnemy attemptShoot_declines)

lemma shoot_after_cooldown:
  assumes "canShoot_own t = None" "lastShotTime t = 0" "shotCooldown t = 500" "target_t t = Some 0"
  shows "\<exists>t' p. shoot t st 10000 = Inr (t', Some p) \<and> target_t t' = Some 0 \<and>
           targetAngle t' = targetAngle t \<and> rotationAngle t' = rotationAngle t \<and>
           lastShotTime t' = 10000"
  using assms by (simp add: shoot_def call_canShoot_def canShoot_def Let_def)

lemma attemptShoot_gated:
  assumes "attemptShoot t st dt now = Inr (t', True)"
  shows "canShoot t now \<and> targetValid t st \<and> aimError t \<le> 1 / 10"
proof -
  have c: "call_canShoot t now = Inr (canShoot t now)"
    using assms by (cases "canShoot_own t") (simp_all add: attemptShoot_def call_canShoot_def)
  have 1: "canShoot t now"
    using assms unfolding attemptShoot_def c by (simp split: if_splits)
  have 2: "targetValid t st"
    using assms 1 unfolding attemptShoot_def c by (simp split: if_splits)
  have 3: "aimError t \<le> 1 / 10"
    using assms 1 2 unfolding attemptShoot_def c Let_def by (simp split: if_splits)
  show ?thesis using 1 2 3 by simp
qed

lemma canShoot_own_kept:
  "canShoot_own (updateVisualEffects_t t dt) = canShoot_own t"
  "canShoot_own (updateRotation t st dt) = canShoot_own t"
  by (simp_all add: updateVisualEffects_t_def updateRotation_def Let_def split: option.split)

lemma findTarget_canShoot_own:
  assumes "findTarget t st es = Inr t'"
  shows "canShoot_own t' = canShoot_own t"
proof -
  let ?t1 = "if target_t t \<noteq> None \<and> \<not> targetValid t st then t \<lparr> target_t := None \<rparr> else t"
  have k: "canShoot_own ?t1 = canShoot_own t" by simp
  show ?thesis
  proof (cases "targetValid ?t1 st")
    case True
    then have "findTarget t st es = Inr ?t1" by (simp add: findTarget_def Let_def)
    then show ?thesis using assms k by simp
  next
    case False
    then have "\<exists>x. t' = ?t1 \<lparr> target_t := x \<rparr>"
      using assms unfolding findTarget_def Let_def
      by (simp split: if_splits sum.splits) blast+
    then show ?thesis using k by auto
  qed
qed

lemma constructed_tower_throws:
  assumes "canShoot_own t = Some b"
  shows "updateEntities_tower t st es dt now = Inl TypeError"
proof (cases "active_t t")
  case False
  then have "update_t t st es dt now = Inr (t, False)" by (simp add: update_t_def)
  then show ?thesis
    using assms by (simp add: updateEntities_tower_def call_canShoot_def)
next
  case True
  let ?t2 = "updateVisualEffects_t
     (t \<lparr> stats_t := (stats_t t) \<lparr> timeActive := timeActive (stats_t t) + dt \<rparr> \<rparr>) dt"
  have u: "update_t t st es dt now =
     (case findTarget ?t2 st es of
        Inl err \<Rightarrow> Inl err
      | Inr t3 \<Rightarrow> attemptShoot (updateRotation t3 st dt) st dt now)"
    using True by (simp add: update_t_def Let_def)
  have "update_t t st es dt now = Inl TypeError"
  proof (cases "findTarget ?t2 st es")
    case (Inl err)
    then show ?thesis unfolding u by (cases err) simp
  next
    case (Inr t3)
    have "canShoot_own (updateRotation t3 st dt) = Some b"
      using findTarget_canShoot_own [OF Inr] assms by (simp add: canShoot_own_kept)
    then have "attemptShoot (updateRotation t3 st dt) st dt now = Inl TypeError"
      by (simp add: attemptShoot_def call_canShoot_def)
    then show ?thesis unfolding u Inr by simp
  qed
  then show ?thesis by (simp add: updateEntities_tower_def)
qed

text \<open>
  Behind the exception.  On a tower whose \<open>canShoot()\<close> reached the method, \<open>attemptShoot\<close>
  would test the cooldown and the alignment (\<open>attemptShoot_gated\<close>), while the firing test
  of \<open>Game.updateEntities\<close>, \<open>tower.canShoot() && tower.target\<close>, tests no alignment: 16 ms
  into turning towards an enemy straight below it, misaligned by \<open>pi / 2 - 0.08\<close> rad, the
  step would push a projectile.  No constructed tower gets there.
\<close>

lemma game_test_has_no_alignment_check:
  "case updateEntities_tower methodTower passingEnemy [0] 16 10000 of
      Inr (t, firedInUpdate, Some projectile) \<Rightarrow>
        \<not> firedInUpdate \<and> target_t t = Some 0 \<and> aimError t = pi / 2 - 8 / 100 \<and>
        1 / 10 < aimError t \<and> lastShotTime t = 10000
    | _ \<Rightarrow> False"
proof -
  from update_t_methodTower obtain t where
    t: "update_t methodTower passingEnemy [0] 16 10000 = Inr (t, False)"
    and tf: "target_t t = Some 0" "targetAngle t = pi / 2" "rotationAngle t = 8 / 100"
      "canShoot_own t = None" "lastShotTime t = 0" "shotCooldown t = 500"
    by blast
  from shoot_after_cooldown [OF tf(4,5,6,1), of passingEnemy] obtain t' p where
    s: "shoot t passingEnemy 10000 = Inr (t', Some p)"
    and sf: "target_t t' = Some 0" "targetAngle t' = targetAngle t"
      "rotationAngle t' = rotationAngle t" "lastShotTime t' = 10000"
    by blast
  have ready: "call_canShoot t 10000 = Inr True"
    using tf by (simp add: call_canShoot_def canShoot_def)
  have 2: "updateEntities_tower methodTower passingEnemy [0] 16 10000 = Inr (t', False, Some p)"
    unfolding updateEntities_tower_def t using ready tf(1) s by simp
  have am: "aimError t' = pi / 2 - 8 / 100" "1 / 10 < aimError t'"
    using aimError_quarter_turn [of t'] sf tf by simp_all
  show ?thesis
    unfolding 2 using am sf by simp
qed

lemma update_t_constructed:
  assumes "canShoot_own t = Some b"
  shows "update_t t st es dt now = Inl TypeError \<or> update_t t st es dt now = Inr (t, False)"
proof (cases "active_t t")
  case False
  then show ?thesis by (simp add: update_t_def)
next
  case True
  let ?t2 = "updateVisualEffects_t
     (t \<lparr> stats_t := (stats_t t) \<lparr> timeActive := timeActive (stats_t t) + dt \<rparr> \<rparr>) dt"
  have u: "update_t t st es dt now =
     (case findTarget ?t2 st es of
        Inl err \<Rightarrow> Inl err
      | Inr t3 \<Rightarrow> attemptShoot (updateRotation t3 st dt) st dt now)"
    using True by (simp add: update_t_def Let_def)
  have "update_t t st es dt now = Inl TypeError"
  proof (cases "findTarget ?t2 st es")
    case (Inl err)
    then show ?thesis unfolding u by (cases err) simp
  next
    case (Inr t3)
    have "canShoot_own (updateRotation t3 st dt) = Some b"
      using findTarget_canShoot_own [OF Inr] assms by (simp add: canShoot_own_kept)
    then have "attemptShoot (updateRotation t3 st dt) st dt now = Inl TypeError"
      by (simp add: attemptShoot_def call_canShoot_def)
    then show ?thesis unfolding u Inr by simp
  qed
  then show ?thesis by simp
qed

text \<open>
  C1.  A tower emits a projectile only when its cooldown has elapsed and it is aligned with
  its target to within 0.1 rad; it never fires while the cooldown runs or while it is
  misaligned.  In this program that holds because a tower never fires at all.  The
  constructor sets the own property \<open>canShoot = true\<close> on every tower, and no code removes
  it (the steps of the update keep it: \<open>canShoot_own_kept\<close>, \<open>findTarget_canShoot_own\<close>).
  On every tower that carries the property, and in every tick, whatever the enemies, the
  elapsed time and the clock: \<open>shoot\<close> and \<open>attemptShoot\<close>, the only code that creates a
  projectile, are aborted by the TypeError of calling \<open>canShoot()\<close>; the tower step of
  \<open>Game.updateEntities\<close> is aborted by it and pushes no projectile; and the tower's own
  \<open>update\<close> either is aborted the same way or, on a deactivated tower, returns at once
  without firing.
\<close>

theorem tower_never_fires_unready_or_misaligned:
  "canShoot_own (Tower ty x y) = Some True \<and>
   (canShoot_own t \<noteq> None \<longrightarrow>
      shoot t st now = Inl TypeError \<and>
      attemptShoot t st dt now = Inl TypeError \<and>
      updateEntities_tower t st es dt now = Inl TypeError \<and>
      emitted (updateEntities_tower t st es dt now) = None \<and>
      (update_t t st es dt now = Inl TypeError \<or> update_t t st es dt now = Inr (t, False)))"
proof -
  have 1: "canShoot_own (Tower ty x y) = Some True" by (simp add: Tower_def Let_def)
  have 2: "shoot t st now = Inl TypeError \<and>
      attemptShoot t st dt now = Inl TypeError \<and>
      updateEntities_tower t st es dt now = Inl TypeError \<and>
      emitted (updateEntities_tower t st es dt now) = None \<and>
      (update_t t st es dt now = Inl TypeError \<or> update_t t st es dt now = Inr (t, False))"
    if "canShoot_own t \<noteq> None"
  proof -
    from that obtain b where b: "canShoot_own t = Some b" by auto
    have c: "call_canShoot t now = Inl TypeError" using b by (simp add: call_canShoot_def)
    have s: "shoot t st now = Inl TypeError" "attemptShoot t st dt now = Inl TypeError"
      by (simp_all add: shoot_def attemptShoot_def c)
    show ?thesis
      using s constructed_tower_throws [OF b, of st es dt now] update_t_constructed [OF b, of st es dt now]
      by (simp add: emitted_def)
  qed
  show ?thesis using 1 2 by blast
qed

theorem tower_never_fires_unready_or_misaligned_witness:
  "canShoot_own placedTower \<noteq> None \<and>
   shoot placedTower passingEnemy 10000 = Inl TypeError \<and>
   attemptShoot placedTower passingEnemy 16 10000 = Inl TypeError \<and>
   updateEntities_tower placedTower passingEnemy [0] 16 10000 = Inl TypeError \<and>
   emitted (updateEntities_tower placedTower passingEnemy [0] 16 10000) = None \<and>
   update_t placedTower passingEnemy [0] 16 10000 = Inl TypeError"
  using tower_never_fires_unready_or_misaligned [where ty = BASIC_tower and x = 96 and y = 224
      and t = placedTower and st = passingEnemy and es = "[0]" and dt = 16 and now = 10000]
    update_t_placedTower
  by (simp add: placedTower_facts emitted_def)

end
